theory Spec2Isabelle
  imports Main
begin

section \<open>Values of the host language\<close>

text \<open>
  The services are TypeScript. An optional string (\<open>string | undefined | null\<close>) is a
  \<open>string option\<close>; in a condition it is truthy exactly when it is present and not
  the empty string.
\<close>

definition truthy :: "string option \<Rightarrow> bool" where
  "truthy v = (case v of None \<Rightarrow> False | Some s \<Rightarrow> s \<noteq> [])"

text \<open>\<open>a || b\<close> on an optional string \<open>a\<close> and a string \<open>b\<close>.\<close>

definition or_else :: "string option \<Rightarrow> string \<Rightarrow> string" where
  "or_else v d = (case v of None \<Rightarrow> d | Some s \<Rightarrow> if s = [] then d else s)"

text \<open>
  \<open>parseInt(s, 10)\<close> of the decimal text of a natural number yields a JavaScript
  number, an IEEE double: exact up to \<open>2^53\<close>, rounded to 53 significant bits (ties to
  even) above.
\<close>

fun bit_length :: "nat \<Rightarrow> nat" where
  "bit_length n = (if n = 0 then 0 else Suc (bit_length (n div 2)))"

declare bit_length.simps [simp del]

definition to_double :: "nat \<Rightarrow> nat" where
  "to_double n =
     (let e = bit_length n - 53;
          q = n div 2 ^ e;
          r = n mod 2 ^ e;
          half = 2 ^ (e - 1)
      in if e = 0 then n
         else if r > half \<or> (r = half \<and> odd q) then (q + 1) * 2 ^ e
         else q * 2 ^ e)"

definition parseInt :: "nat \<Rightarrow> nat" where
  "parseInt n = (if n \<le> 2 ^ 53 then n else to_double n)"

section \<open>Node's path.join\<close>

fun split_on :: "char \<Rightarrow> string \<Rightarrow> string list" where
  "split_on c [] = [[]]"
| "split_on c (x # xs) =
     (if x = c then [] # split_on c xs
      else (case split_on c xs of
              [] \<Rightarrow> [[x]]
            | w # ws \<Rightarrow> (x # w) # ws))"

fun intercalate :: "string \<Rightarrow> string list \<Rightarrow> string" where
  "intercalate sep [] = []"
| "intercalate sep [s] = s"
| "intercalate sep (s # t # ts) = s @ sep @ intercalate sep (t # ts)"

text \<open>
  \<open>normalizeString\<close>: the segments are read left to right; \<open>res\<close> holds the segments
  kept so far, last one first. An empty segment and \<open>.\<close> are dropped; \<open>..\<close> removes the
  last kept segment, or is kept itself when nothing can be removed and the path is
  relative.
\<close>

fun normalizeString :: "bool \<Rightarrow> string list \<Rightarrow> string list \<Rightarrow> string list" where
  "normalizeString allowAboveRoot [] res = rev res"
| "normalizeString allowAboveRoot (s # ss) res =
     (if s = [] \<or> s = ''.'' then normalizeString allowAboveRoot ss res
      else if s = ''..'' then
        (case res of
           [] \<Rightarrow> normalizeString allowAboveRoot ss (if allowAboveRoot then [''..''] else [])
         | r # rs \<Rightarrow>
             if r = ''..''
             then normalizeString allowAboveRoot ss (if allowAboveRoot then ''..'' # res else res)
             else normalizeString allowAboveRoot ss rs)
      else normalizeString allowAboveRoot ss (s # res))"

definition normalize :: "string \<Rightarrow> string" where
  "normalize p =
     (if p = [] then ''.''
      else
        (let isAbsolute = (hd p = CHR ''/'');
             trailingSeparator = (last p = CHR ''/'');
             q = intercalate ''/'' (normalizeString (\<not> isAbsolute) (split_on CHR ''/'' p) [])
         in if q = [] then (if isAbsolute then ''/'' else if trailingSeparator then ''./'' else ''.'')
            else (if isAbsolute then ''/'' else []) @ q @ (if trailingSeparator then ''/'' else [])))"

definition path_join :: "string \<Rightarrow> string \<Rightarrow> string" where
  "path_join a b =
     (let parts = filter (\<lambda>s. s \<noteq> []) [a, b]
      in if parts = [] then ''.'' else normalize (intercalate ''/'' parts))"

section \<open>The local file system\<close>

text \<open>
  The regular files of the disk, by path, with their bytes (a \<open>char\<close> is a byte), and
  the paths the process may not write or unlink. Directories are not part of the model:
  creating one changes no regular file. (Node's \<open>existsSync\<close> is also true of a
  directory, which \<open>unlink\<close> refuses; no path below names one.)
\<close>

record fs =
  fs_files :: "(string \<times> string) list"
  fs_denied :: "string list"

definition existsSync :: "fs \<Rightarrow> string \<Rightarrow> bool" where
  "existsSync d p = (map_of (fs_files d) p \<noteq> None)"

definition writeFile :: "string \<Rightarrow> string \<Rightarrow> fs \<Rightarrow> string + fs" where
  "writeFile p buf d =
     (if p \<in> set (fs_denied d) then Inl (''EACCES: permission denied, open '' @ [CHR 0x27] @ p @ [CHR 0x27])
      else Inr (d\<lparr>fs_files := (p, buf) # filter (\<lambda>e. fst e \<noteq> p) (fs_files d)\<rparr>))"

definition unlink :: "string \<Rightarrow> fs \<Rightarrow> string + fs" where
  "unlink p d =
     (if map_of (fs_files d) p = None then Inl (''ENOENT: no such file or directory, unlink '' @ [CHR 0x27] @ p @ [CHR 0x27])
      else if p \<in> set (fs_denied d) then Inl (''EACCES: permission denied, unlink '' @ [CHR 0x27] @ p @ [CHR 0x27])
      else Inr (d\<lparr>fs_files := filter (\<lambda>e. fst e \<noteq> p) (fs_files d)\<rparr>))"

definition stat_size :: "string \<Rightarrow> fs \<Rightarrow> string + nat" where
  "stat_size p d =
     (case map_of (fs_files d) p of
        None \<Rightarrow> Inl (''ENOENT: no such file or directory, stat '' @ [CHR 0x27] @ p @ [CHR 0x27])
      | Some buf \<Rightarrow> Inr (length buf))"

section \<open>The object store service\<close>

text \<open>
  What \<open>s3Client.send\<close> is given and what it answers. A request either throws (the
  message of the error, \<open>Inl\<close>) or returns the service's output. The batch delete
  answers with the keys it deleted and, per key it could not delete, an error entry:
  per-key failures do not make the request throw.
\<close>

datatype s3_command =
  PutObjectCommand string string string
| DeleteObjectCommand string string
| DeleteObjectsCommand string "string list"

datatype s3_output =
  PutObjectOutput
| DeleteObjectOutput
| DeleteObjectsOutput "string list" "(string \<times> string) list"

record s3 =
  s3_objects :: "((string \<times> string) \<times> string) list"
  s3_online :: bool
  s3_denied :: "(string \<times> string) list"

text \<open>
  The service as the strategies meet it: unreachable, every request throws; deleting a
  key that holds no object is not an error; a denied key fails a single request and is
  reported in the error list of a batch.
\<close>

definition s3_send :: "s3_command \<Rightarrow> s3 \<Rightarrow> (string + s3_output) \<times> s3" where
  "s3_send c s =
     (if \<not> s3_online s then (Inl ''connect ECONNREFUSED'', s)
      else (case c of
              PutObjectCommand b k body \<Rightarrow>
                if (b, k) \<in> set (s3_denied s) then (Inl ''Access Denied'', s)
                else (Inr PutObjectOutput,
                      s\<lparr>s3_objects := ((b, k), body) # filter (\<lambda>e. fst e \<noteq> (b, k)) (s3_objects s)\<rparr>)
            | DeleteObjectCommand b k \<Rightarrow>
                if (b, k) \<in> set (s3_denied s) then (Inl ''Access Denied'', s)
                else (Inr DeleteObjectOutput,
                      s\<lparr>s3_objects := filter (\<lambda>e. fst e \<noteq> (b, k)) (s3_objects s)\<rparr>)
            | DeleteObjectsCommand b ks \<Rightarrow>
                if ks = [] then (Inl ''MalformedXML'', s)
                else (Inr (DeleteObjectsOutput
                             (filter (\<lambda>k. (b, k) \<notin> set (s3_denied s)) ks)
                             (map (\<lambda>k. (k, ''AccessDenied''))
                                (filter (\<lambda>k. (b, k) \<in> set (s3_denied s)) ks))),
                      s\<lparr>s3_objects :=
                          filter (\<lambda>e. \<not> (fst (fst e) = b \<and> snd (fst e) \<in> set ks
                                          \<and> fst e \<notin> set (s3_denied s)))
                            (s3_objects s)\<rparr>)))"

section \<open>Storage strategies\<close>

text \<open>
  The results of the strategy interface. The public URL of an upload is left out: no
  operation below reads it, and the CDN and permission variants differ from their base
  strategies only in the URL and in the mode bits of the written file.
\<close>

record FileUploadResult =
  result_path :: string
  result_key :: "string option"
  result_bucket :: "string option"
  result_size :: nat
  result_mimetype :: string

record FileDeleteResult =
  success :: bool
  message :: "string option"

record MulterFile =
  originalname :: string
  mimetype :: string
  buffer :: string

record LocalStorageConfig =
  uploadPath :: string

record AWSS3Config =
  bucket :: string

subsection \<open>LocalStorageStrategy\<close>

definition getFullPath :: "LocalStorageConfig \<Rightarrow> string \<Rightarrow> string" where
  "getFullPath cfg filename = path_join (uploadPath cfg) filename"

definition LocalStorageStrategy_upload ::
  "LocalStorageConfig \<Rightarrow> MulterFile \<Rightarrow> string \<Rightarrow> fs \<Rightarrow> (string + FileUploadResult) \<times> fs" where
  "LocalStorageStrategy_upload cfg file filename d =
     (let fullPath = getFullPath cfg filename
      in case writeFile fullPath (buffer file) d of
           Inl m \<Rightarrow> (Inl m, d)
         | Inr d' \<Rightarrow>
             (case stat_size fullPath d' of
                Inl m \<Rightarrow> (Inl m, d')
              | Inr n \<Rightarrow>
                  (Inr \<lparr>result_path = fullPath, result_key = None, result_bucket = None,
                        result_size = n, result_mimetype = mimetype file\<rparr>, d')))"

definition LocalStorageStrategy_delete ::
  "LocalStorageConfig \<Rightarrow> string \<Rightarrow> fs \<Rightarrow> FileDeleteResult \<times> fs" where
  "LocalStorageStrategy_delete cfg filepath d =
     (let fullPath = getFullPath cfg filepath
      in if existsSync d fullPath
         then (case unlink fullPath d of
                 Inl m \<Rightarrow> (\<lparr>success = False, message = Some m\<rparr>, d)
               | Inr d' \<Rightarrow> (\<lparr>success = True, message = Some ''File deleted successfully''\<rparr>, d'))
         else (\<lparr>success = False, message = Some ''File not found''\<rparr>, d))"

subsection \<open>AWSS3Strategy\<close>

text \<open>
  The strategy holds its client; \<open>send\<close> is the client's method, over whatever state
  \<open>'w\<close> the service has.
\<close>

type_synonym 'w s3_client = "s3_command \<Rightarrow> 'w \<Rightarrow> (string + s3_output) \<times> 'w"

definition AWSS3Strategy_upload ::
  "'w s3_client \<Rightarrow> AWSS3Config \<Rightarrow> MulterFile \<Rightarrow> string \<Rightarrow> 'w \<Rightarrow> (string + FileUploadResult) \<times> 'w" where
  "AWSS3Strategy_upload send cfg file filename s =
     (case send (PutObjectCommand (bucket cfg) filename (buffer file)) s of
        (Inl m, s') \<Rightarrow> (Inl m, s')
      | (Inr response, s') \<Rightarrow>
          (Inr \<lparr>result_path = filename, result_key = Some filename,
                result_bucket = Some (bucket cfg), result_size = length (buffer file),
                result_mimetype = mimetype file\<rparr>, s'))"

definition AWSS3Strategy_delete ::
  "'w s3_client \<Rightarrow> AWSS3Config \<Rightarrow> string \<Rightarrow> 'w \<Rightarrow> FileDeleteResult \<times> 'w" where
  "AWSS3Strategy_delete send cfg key s =
     (case send (DeleteObjectCommand (bucket cfg) key) s of
        (Inl m, s') \<Rightarrow> (\<lparr>success = False, message = Some m\<rparr>, s')
      | (Inr response, s') \<Rightarrow>
          (\<lparr>success = True, message = Some ''File deleted successfully''\<rparr>, s'))"

definition AWSS3Strategy_deleteMultiple ::
  "'w s3_client \<Rightarrow> AWSS3Config \<Rightarrow> string list \<Rightarrow> 'w \<Rightarrow> FileDeleteResult list \<times> 'w" where
  "AWSS3Strategy_deleteMultiple send cfg keys s =
     (case send (DeleteObjectsCommand (bucket cfg) (map (\<lambda>key. key) keys)) s of
        (Inl m, s') \<Rightarrow> (map (\<lambda>key. \<lparr>success = False, message = Some m\<rparr>) keys, s')
      | (Inr response, s') \<Rightarrow>
          (map (\<lambda>key. \<lparr>success = True, message = Some ''File deleted successfully''\<rparr>) keys, s'))"

section \<open>Entities and the persisted state\<close>

datatype StorageType = LOCAL | AWS_S3 | DIGITAL_OCEAN | LINUX_FOLDER

fun storage_type_name :: "StorageType \<Rightarrow> string" where
  "storage_type_name LOCAL = ''local''"
| "storage_type_name AWS_S3 = ''aws_s3''"
| "storage_type_name DIGITAL_OCEAN = ''digital_ocean''"
| "storage_type_name LINUX_FOLDER = ''linux_folder''"

text \<open>
  The columns of the two tables that the services read or write in the operations below.
  (Left out: url, extension, description, tags, isPublic, metadata, checksum, createdBy
  and the creation and update timestamps.) A timestamp is a number; \<open>None\<close> is NULL.
\<close>

record File =
  file_id :: string
  file_name :: string
  file_originalName :: string
  file_path :: string
  file_size :: nat
  file_mimetype :: string
  file_storageType :: StorageType
  file_storageBucket :: "string option"
  file_storageKey :: "string option"
  file_folderId :: "string option"
  file_uploadedBy :: "string option"
  file_deletedBy :: "string option"
  file_deletedAt :: "nat option"

record Folder =
  folder_id :: string
  folder_name :: string
  folder_path :: "string option"
  folder_parentId :: "string option"
  folder_deletedBy :: "string option"
  folder_fileCount :: nat
  folder_totalSize :: nat
  folder_deletedAt :: "nat option"

text \<open>
  Everything the services act on: the rows of \<open>files\<close> and \<open>folders\<close>, the closure table
  of the folder tree (ancestor, descendant), the disk, the object store, and the lines
  the folder service has logged.
\<close>

record world =
  files :: "File list"
  folders :: "Folder list"
  folders_closure :: "(string \<times> string) list"
  disk :: fs
  object_store :: s3
  folder_log :: "string list"

datatype error =
  FileNotFoundException string
| FolderNotFoundException string
| FileAlreadyDeletedException string
| StorageOperationException string string
| FolderNotEmptyException string
| Error string
| QueryFailedError string

fun error_message :: "error \<Rightarrow> string" where
  "error_message (FileNotFoundException fileId) = ''File with ID '' @ fileId @ '' not found''"
| "error_message (FolderNotFoundException folderId) = ''Folder with ID '' @ folderId @ '' not found''"
| "error_message (FileAlreadyDeletedException fileId) =
     ''File with ID '' @ fileId @ '' is already deleted''"
| "error_message (StorageOperationException operation m) =
     ''Storage operation '' @ [CHR 0x27] @ operation @ [CHR 0x27] @ '' failed: '' @ m"
| "error_message (FolderNotEmptyException folderId) =
     ''Folder with ID '' @ folderId @ '' is not empty. Delete or move files first.''"
| "error_message (Error m) = m"
| "error_message (QueryFailedError m) = m"

section \<open>StorageFactory\<close>

datatype IStorageStrategy =
  LocalStorageStrategy LocalStorageConfig
| AWSS3Strategy AWSS3Config
| DigitalOceanStrategy AWSS3Config
| LinuxFolderStrategy LocalStorageConfig

text \<open>
  The dispatch of \<open>upload\<close> and \<open>delete\<close> on the strategy's class. DigitalOceanStrategy
  extends AWSS3Strategy and LinuxFolderStrategy extends LocalStorageStrategy; neither
  overrides \<open>delete\<close>, and their \<open>upload\<close> calls the base one first and then only adjusts
  the URL, or the mode bits (failures there are swallowed).
\<close>

fun strategy_upload ::
  "IStorageStrategy \<Rightarrow> MulterFile \<Rightarrow> string \<Rightarrow> world \<Rightarrow> (string + FileUploadResult) \<times> world" where
  "strategy_upload (LocalStorageStrategy cfg) file filename w =
     (case LocalStorageStrategy_upload cfg file filename (disk w) of
        (r, d) \<Rightarrow> (r, w\<lparr>disk := d\<rparr>))"
| "strategy_upload (LinuxFolderStrategy cfg) file filename w =
     (case LocalStorageStrategy_upload cfg file filename (disk w) of
        (r, d) \<Rightarrow> (r, w\<lparr>disk := d\<rparr>))"
| "strategy_upload (AWSS3Strategy cfg) file filename w =
     (case AWSS3Strategy_upload s3_send cfg file filename (object_store w) of
        (r, s) \<Rightarrow> (r, w\<lparr>object_store := s\<rparr>))"
| "strategy_upload (DigitalOceanStrategy cfg) file filename w =
     (case AWSS3Strategy_upload s3_send cfg file filename (object_store w) of
        (r, s) \<Rightarrow> (r, w\<lparr>object_store := s\<rparr>))"

fun strategy_delete :: "IStorageStrategy \<Rightarrow> string \<Rightarrow> world \<Rightarrow> FileDeleteResult \<times> world" where
  "strategy_delete (LocalStorageStrategy cfg) p w =
     (case LocalStorageStrategy_delete cfg p (disk w) of (r, d) \<Rightarrow> (r, w\<lparr>disk := d\<rparr>))"
| "strategy_delete (LinuxFolderStrategy cfg) p w =
     (case LocalStorageStrategy_delete cfg p (disk w) of (r, d) \<Rightarrow> (r, w\<lparr>disk := d\<rparr>))"
| "strategy_delete (AWSS3Strategy cfg) p w =
     (case AWSS3Strategy_delete s3_send cfg p (object_store w) of
        (r, s) \<Rightarrow> (r, w\<lparr>object_store := s\<rparr>))"
| "strategy_delete (DigitalOceanStrategy cfg) p w =
     (case AWSS3Strategy_delete s3_send cfg p (object_store w) of
        (r, s) \<Rightarrow> (r, w\<lparr>object_store := s\<rparr>))"

text \<open>
  The factory's \<open>strategies\<close> is a JavaScript Map: its entries in insertion order, one
  per key.
\<close>

type_synonym StorageFactory = "(StorageType \<times> IStorageStrategy) list"

record StorageConfigMap =
  config_local :: "LocalStorageConfig option"
  config_aws_s3 :: "AWSS3Config option"
  config_digital_ocean :: "AWSS3Config option"
  config_linux_folder :: "LocalStorageConfig option"

definition initializeStrategies :: "StorageConfigMap \<Rightarrow> StorageFactory" where
  "initializeStrategies configs =
     (case config_local configs of None \<Rightarrow> [] | Some c \<Rightarrow> [(LOCAL, LocalStorageStrategy c)])
     @ (case config_aws_s3 configs of None \<Rightarrow> [] | Some c \<Rightarrow> [(AWS_S3, AWSS3Strategy c)])
     @ (case config_digital_ocean configs of
          None \<Rightarrow> [] | Some c \<Rightarrow> [(DIGITAL_OCEAN, DigitalOceanStrategy c)])
     @ (case config_linux_folder configs of
          None \<Rightarrow> [] | Some c \<Rightarrow> [(LINUX_FOLDER, LinuxFolderStrategy c)])"

definition getStrategy :: "StorageFactory \<Rightarrow> StorageType \<Rightarrow> error + IStorageStrategy" where
  "getStrategy strategies t =
     (case map_of strategies t of
        None \<Rightarrow>
          Inl (Error (''Storage strategy not found for type: '' @ storage_type_name t
                      @ ''. Make sure it'' @ [CHR 0x27] @ ''s configured in the module.''))
      | Some strategy \<Rightarrow> Inr strategy)"

definition getDefaultStrategy :: "StorageFactory \<Rightarrow> error + IStorageStrategy" where
  "getDefaultStrategy strategies =
     (case strategies of
        [] \<Rightarrow> Inl (Error ''No storage strategies available'')
      | (t, firstStrategy) # rest \<Rightarrow> Inr firstStrategy)"

definition registerStrategy ::
  "StorageType \<Rightarrow> IStorageStrategy \<Rightarrow> StorageFactory \<Rightarrow> StorageFactory" where
  "registerStrategy t strategy strategies =
     (if map_of strategies t = None then strategies @ [(t, strategy)]
      else map (\<lambda>e. if fst e = t then (t, strategy) else e) strategies)"

definition unregisterStrategy :: "StorageType \<Rightarrow> StorageFactory \<Rightarrow> StorageFactory" where
  "unregisterStrategy t strategies = filter (\<lambda>e. fst e \<noteq> t) strategies"

section \<open>The repositories\<close>

text \<open>
  The tables live in a PostgreSQL database. A statement that binds a value its column's
  type does not take, or that breaks a foreign key, is refused: the repository call
  throws \<open>QueryFailedError\<close> with the database's message, and the tables are as
  before. Ids are kept abstract: every non-empty string stands for the text of some
  uuid, the empty string is the text of none. An \<open>int\<close> column takes the numbers up to
  \<open>2^31 - 1\<close>, a \<open>bigint\<close> column those up to \<open>2^63 - 1\<close>. The message for a
  malformed uuid is the database's text; its other messages also quote the value or name
  the constraint, which is left out. Refusals for other reasons (a text longer than its
  \<open>varchar\<close> column) are not modelled.
\<close>

definition is_uuid :: "string \<Rightarrow> bool" where
  "is_uuid s = (s \<noteq> [])"

definition int_max :: nat where
  "int_max = 2 ^ 31 - 1"

definition bigint_max :: nat where
  "bigint_max = 2 ^ 63 - 1"

definition invalid_uuid :: "string \<Rightarrow> string" where
  "invalid_uuid s = ''invalid input syntax for type uuid: '' @ [CHR 0x22] @ s @ [CHR 0x22]"

text \<open>
  \<open>fileRepository.save(fileEntity)\<close> of a new entity: an INSERT into \<open>files\<close>, whose
  \<open>size\<close> is a \<open>bigint\<close> and whose \<open>folderId\<close> is a nullable \<open>uuid\<close> with a foreign
  key to \<open>folders(id)\<close>.
\<close>

definition fileRepository_save :: "File \<Rightarrow> world \<Rightarrow> string + world" where
  "fileRepository_save fileEntity w =
     (if file_size fileEntity > bigint_max then Inl ''value out of range for type bigint''
      else
        (case file_folderId fileEntity of
           None \<Rightarrow> Inr (w\<lparr>files := files w @ [fileEntity]\<rparr>)
         | Some folderId \<Rightarrow>
             if \<not> is_uuid folderId then Inl (invalid_uuid folderId)
             else if folderId \<notin> set (map folder_id (folders w))
             then Inl ''insert or update on table files violates foreign key constraint''
             else Inr (w\<lparr>files := files w @ [fileEntity]\<rparr>)))"

text \<open>
  \<open>findOne({ where: { id }, withDeleted })\<close>: the row with this id; a soft-deleted row
  only when \<open>withDeleted\<close> is set.
\<close>

definition file_findOne :: "bool \<Rightarrow> string \<Rightarrow> world \<Rightarrow> File option" where
  "file_findOne withDeleted fileId w =
     find (\<lambda>f. file_id f = fileId \<and> (withDeleted \<or> file_deletedAt f = None)) (files w)"

definition folder_findOne :: "bool \<Rightarrow> string \<Rightarrow> world \<Rightarrow> Folder option" where
  "folder_findOne withDeleted folderId w =
     find (\<lambda>f. folder_id f = folderId \<and> (withDeleted \<or> folder_deletedAt f = None)) (folders w)"

text \<open>
  The aggregate query both services run: \<open>COUNT(file.id)\<close> and
  \<open>COALESCE(SUM(file.size), 0)\<close> over the rows with \<open>file.folderId = :folderId\<close> and
  \<open>file.deletedAt IS NULL\<close>, one pass over the table.
\<close>

definition countAndSum :: "string \<Rightarrow> File list \<Rightarrow> nat \<times> nat" where
  "countAndSum folderId rows =
     foldl (\<lambda>acc f. if file_folderId f = Some folderId \<and> file_deletedAt f = None
                     then (fst acc + 1, snd acc + file_size f) else acc)
       (0, 0) rows"

text \<open>
  The tree repository joins the closure table with the table of folders: the descendants
  of a folder are the live rows it is an ancestor of (itself among them, by the reflexive
  pair), its ancestors the live rows it descends from. The queries have no ORDER BY. The
  rows are taken here as the join yields them, pair by pair of the closure table: a
  folder's ancestors come nearest first when its pairs were inserted in that order, which
  is the order \<open>ancestors.reverse()\<close> in \<open>updateFolderPath\<close> counts on.
\<close>

definition findDescendants :: "world \<Rightarrow> Folder \<Rightarrow> Folder list" where
  "findDescendants w folder =
     concat (map (\<lambda>e. filter (\<lambda>f. folder_id f = snd e \<and> folder_deletedAt f = None) (folders w))
               (filter (\<lambda>e. fst e = folder_id folder) (folders_closure w)))"

definition findAncestors :: "world \<Rightarrow> Folder \<Rightarrow> Folder list" where
  "findAncestors w folder =
     concat (map (\<lambda>e. filter (\<lambda>f. folder_id f = fst e \<and> folder_deletedAt f = None) (folders w))
               (filter (\<lambda>e. snd e = folder_id folder) (folders_closure w)))"

text \<open>
  Saving a folder whose parent changed: the row's \<open>parentId\<close> is written, and the
  closure pairs that led from the old parent's ancestors into the folder's subtree are
  replaced by pairs from the new parent's ancestors. \<open>parentId\<close> is a \<open>uuid\<close> column:
  the empty string is refused.
\<close>

definition closure_reparent ::
  "string \<Rightarrow> string option \<Rightarrow> string option \<Rightarrow> (string \<times> string) list \<Rightarrow> (string \<times> string) list" where
  "closure_reparent folderId oldParent newParent cl =
     (if oldParent = newParent then cl
      else
        (let sub = map snd (filter (\<lambda>e. fst e = folderId) cl);
             cl1 = (case oldParent of
                      None \<Rightarrow> cl
                    | Some old \<Rightarrow>
                        (let up = map fst (filter (\<lambda>e. snd e = old) cl)
                         in filter (\<lambda>e. \<not> (fst e \<in> set up \<and> snd e \<in> set sub)) cl))
         in case newParent of
              None \<Rightarrow> cl1
            | Some new \<Rightarrow>
                cl1 @ concat (map (\<lambda>a. map (\<lambda>d. (a, d)) sub)
                               (map fst (filter (\<lambda>e. snd e = new) cl1)))))"

definition save_parent ::
  "string \<Rightarrow> string option \<Rightarrow> Folder option \<Rightarrow> world \<Rightarrow> string + world" where
  "save_parent folderId parentId parent w =
     (if (case parentId of None \<Rightarrow> False | Some p \<Rightarrow> \<not> is_uuid p)
      then Inl (invalid_uuid (or_else parentId []))
      else
        Inr (w\<lparr>folders := map (\<lambda>f. if folder_id f = folderId
                                     then f\<lparr>folder_parentId := parentId\<rparr> else f)
                            (folders w),
               folders_closure :=
                 closure_reparent folderId
                   (case find (\<lambda>f. folder_id f = folderId) (folders w) of
                      None \<Rightarrow> None | Some f \<Rightarrow> folder_parentId f)
                   (map_option folder_id parent) (folders_closure w)\<rparr>))"

definition save_path :: "string \<Rightarrow> string \<Rightarrow> world \<Rightarrow> world" where
  "save_path folderId p w =
     w\<lparr>folders := map (\<lambda>f. if folder_id f = folderId then f\<lparr>folder_path := Some p\<rparr> else f)
                     (folders w)\<rparr>"

text \<open>
  \<open>folderRepository.remove(folder)\<close>: the row goes, and with it its closure pairs
  (ON DELETE CASCADE on both columns of the closure table). The folder service removes a
  row only after the rows that point to it are gone, so the cascades on
  \<open>folders.parentId\<close> and \<open>files.folderId\<close> find nothing to change.
\<close>

definition folder_remove :: "string \<Rightarrow> world \<Rightarrow> world" where
  "folder_remove folderId w =
     w\<lparr>folders := filter (\<lambda>f. folder_id f \<noteq> folderId) (folders w),
       folders_closure :=
         filter (\<lambda>e. fst e \<noteq> folderId \<and> snd e \<noteq> folderId) (folders_closure w)\<rparr>"

text \<open>A loop over a list whose body may throw, or not return.\<close>

fun forEach ::
  "('a \<Rightarrow> 's \<Rightarrow> ((error + unit) \<times> 's) option) \<Rightarrow> 'a list \<Rightarrow> 's \<Rightarrow> ((error + unit) \<times> 's) option" where
  "forEach body [] w = Some (Inr (), w)"
| "forEach body (x # xs) w =
     (case body x w of
        None \<Rightarrow> None
      | Some (Inl e, w') \<Rightarrow> Some (Inl e, w')
      | Some (Inr u, w') \<Rightarrow> forEach body xs w')"

section \<open>FileService\<close>

record FileUploadDto =
  dto_filename :: "string option"
  dto_folderId :: "string option"
  dto_storageType :: "StorageType option"
  dto_uploadedBy :: "string option"

text \<open>
  \<open>updateFolderStats\<close>: the aggregate query, then an UPDATE of the folder's \<open>fileCount\<close>
  (an \<open>int\<close> column) and \<open>totalSize\<close> (a \<open>bigint\<close> column), which the database
  refuses when a number does not fit.
\<close>

definition updateFolderStats :: "string \<Rightarrow> world \<Rightarrow> string + world" where
  "updateFolderStats folderId w =
     (let stats = countAndSum folderId (files w);
          fileCount = parseInt (fst stats);
          totalSize = parseInt (snd stats)
      in if fileCount > int_max then Inl ''value out of range for type integer''
         else if totalSize > bigint_max then Inl ''value out of range for type bigint''
         else Inr (w\<lparr>folders :=
                       map (\<lambda>f. if folder_id f = folderId
                                 then f\<lparr>folder_fileCount := fileCount,
                                        folder_totalSize := totalSize\<rparr>
                                 else f) (folders w)\<rparr>))"

text \<open>
  \<open>fileRepository.create({...})\<close> in \<open>uploadFile\<close>: the entity built from the request
  and the strategy's result. Its id is the one the database generates when the entity
  is saved.
\<close>

definition fileRepository_create ::
  "string \<Rightarrow> string \<Rightarrow> MulterFile \<Rightarrow> FileUploadDto \<Rightarrow> StorageType \<Rightarrow> FileUploadResult \<Rightarrow> File" where
  "fileRepository_create newId filename file uploadDto storageType uploadResult =
     \<lparr>file_id = newId, file_name = filename,
      file_originalName = originalname file,
      file_path = result_path uploadResult,
      file_size = result_size uploadResult,
      file_mimetype = result_mimetype uploadResult,
      file_storageType = storageType,
      file_storageBucket = result_bucket uploadResult,
      file_storageKey = result_key uploadResult,
      file_folderId = dto_folderId uploadDto,
      file_uploadedBy = dto_uploadedBy uploadDto,
      file_deletedBy = None, file_deletedAt = None\<rparr>"

text \<open>
  The body of \<open>uploadFile\<close>'s \<open>try\<close>. \<open>generatedName\<close> is the name the service makes up
  when the request gives none (a fresh UUID and the extension of the original name);
  \<open>newId\<close> is the id the database gives the new row. Whatever is thrown in the body,
  by the folder check, the registry, the strategy or the database, ends the body there.
\<close>

definition FileService_uploadFile_try ::
  "StorageFactory \<Rightarrow> string \<Rightarrow> string \<Rightarrow> MulterFile \<Rightarrow> FileUploadDto \<Rightarrow> world \<Rightarrow> (error + File) \<times> world" where
  "FileService_uploadFile_try storageFactory generatedName newId file uploadDto w =
     (case (case dto_folderId uploadDto of
              None \<Rightarrow> None
            | Some folderId \<Rightarrow>
                if folderId \<noteq> [] \<and> folder_findOne False folderId w = None
                then Some (FolderNotFoundException folderId) else None) of
        Some e \<Rightarrow> (Inl e, w)
      | None \<Rightarrow>
          (let storageType = (case dto_storageType uploadDto of None \<Rightarrow> LOCAL | Some t \<Rightarrow> t)
           in case getStrategy storageFactory storageType of
                Inl e \<Rightarrow> (Inl e, w)
              | Inr strategy \<Rightarrow>
                  (let filename = or_else (dto_filename uploadDto) generatedName
                   in case strategy_upload strategy file filename w of
                        (Inl m, w1) \<Rightarrow> (Inl (Error m), w1)
                      | (Inr uploadResult, w1) \<Rightarrow>
                          (let fileEntity =
                                 fileRepository_create newId filename file uploadDto
                                   storageType uploadResult
                           in case fileRepository_save fileEntity w1 of
                                Inl m \<Rightarrow> (Inl (QueryFailedError m), w1)
                              | Inr w2 \<Rightarrow>
                                  if truthy (dto_folderId uploadDto)
                                  then (case updateFolderStats
                                               (or_else (dto_folderId uploadDto) []) w2 of
                                          Inl m \<Rightarrow> (Inl (QueryFailedError m), w2)
                                        | Inr w3 \<Rightarrow> (Inr fileEntity, w3))
                                  else (Inr fileEntity, w2)))))"

definition FileService_uploadFile ::
  "StorageFactory \<Rightarrow> string \<Rightarrow> string \<Rightarrow> MulterFile \<Rightarrow> FileUploadDto \<Rightarrow> world \<Rightarrow> (error + File) \<times> world" where
  "FileService_uploadFile storageFactory generatedName newId file uploadDto w =
     (case FileService_uploadFile_try storageFactory generatedName newId file uploadDto w of
        (Inl e, w') \<Rightarrow> (Inl (StorageOperationException ''upload'' (error_message e)), w')
      | (Inr savedFile, w') \<Rightarrow> (Inr savedFile, w'))"

text \<open>
  The folder check at the head of \<open>uploadFile\<close> lets the request through: it names no
  folder, or the empty string, or a folder that \<open>findOne\<close> finds.
\<close>

definition folder_check_passes :: "FileUploadDto \<Rightarrow> world \<Rightarrow> bool" where
  "folder_check_passes dto w =
     (case dto_folderId dto of
        None \<Rightarrow> True
      | Some folderId \<Rightarrow> folderId = [] \<or> folder_findOne False folderId w \<noteq> None)"

definition FileService_findById :: "string \<Rightarrow> bool \<Rightarrow> world \<Rightarrow> error + File" where
  "FileService_findById fileId includeDeleted w =
     (case file_findOne includeDeleted fileId w of
        None \<Rightarrow> Inl (FileNotFoundException fileId)
      | Some file \<Rightarrow> Inr file)"

text \<open>
  \<open>fileRepository.softDelete(id)\<close> and \<open>restore(id)\<close>: an UPDATE of the deletion
  timestamp of the rows with this id, and of nothing else.
\<close>

definition file_softDelete :: "nat \<Rightarrow> string \<Rightarrow> world \<Rightarrow> world" where
  "file_softDelete now fileId w =
     w\<lparr>files := map (\<lambda>f. if file_id f = fileId then f\<lparr>file_deletedAt := Some now\<rparr> else f)
                   (files w)\<rparr>"

definition file_restore :: "string \<Rightarrow> world \<Rightarrow> world" where
  "file_restore fileId w =
     w\<lparr>files := map (\<lambda>f. if file_id f = fileId then f\<lparr>file_deletedAt := None\<rparr> else f)
                   (files w)\<rparr>"

definition FileService_softDelete ::
  "nat \<Rightarrow> string \<Rightarrow> string option \<Rightarrow> world \<Rightarrow> (error + File) \<times> world" where
  "FileService_softDelete now fileId deletedBy w =
     (case FileService_findById fileId False w of
        Inl e \<Rightarrow> (Inl e, w)
      | Inr file \<Rightarrow>
          if file_deletedAt file \<noteq> None then (Inl (FileAlreadyDeletedException fileId), w)
          else (Inr (if truthy deletedBy then file\<lparr>file_deletedBy := deletedBy\<rparr> else file),
                file_softDelete now fileId w))"

definition FileService_hardDelete ::
  "StorageFactory \<Rightarrow> string \<Rightarrow> world \<Rightarrow> (error + unit) \<times> world" where
  "FileService_hardDelete storageFactory fileId w =
     (case file_findOne True fileId w of
        None \<Rightarrow> (Inl (FileNotFoundException fileId), w)
      | Some file \<Rightarrow>
          (case getStrategy storageFactory (file_storageType file) of
             Inl e \<Rightarrow> (Inl (StorageOperationException ''hard delete'' (error_message e)), w)
           | Inr strategy \<Rightarrow>
               (case strategy_delete strategy (or_else (file_storageKey file) (file_path file)) w of
                  (deleteResult, w1) \<Rightarrow>
                    (let w2 = w1\<lparr>files := filter (\<lambda>f. file_id f \<noteq> file_id file) (files w1)\<rparr>
                     in if truthy (file_folderId file)
                        then (case updateFolderStats (or_else (file_folderId file) []) w2 of
                                Inl m \<Rightarrow> (Inl (StorageOperationException ''hard delete'' m), w2)
                              | Inr w3 \<Rightarrow> (Inr (), w3))
                        else (Inr (), w2)))))"

definition FileService_restore :: "string \<Rightarrow> world \<Rightarrow> (error + File) \<times> world" where
  "FileService_restore fileId w =
     (case file_findOne True fileId w of
        None \<Rightarrow> (Inl (FileNotFoundException fileId), w)
      | Some file \<Rightarrow>
          if file_deletedAt file = None then (Inr file, w)
          else (let w1 = file_restore fileId w
                in case FileService_findById fileId False w1 of
                     Inl e \<Rightarrow> (Inl e, w1)
                   | Inr restoredFile \<Rightarrow> (Inr restoredFile, w1)))"

section \<open>FolderService\<close>

definition FolderService_findById :: "string \<Rightarrow> world \<Rightarrow> error + Folder" where
  "FolderService_findById folderId w =
     (case folder_findOne False folderId w of
        None \<Rightarrow> Inl (FolderNotFoundException folderId)
      | Some folder \<Rightarrow> Inr folder)"

definition getAllDescendants :: "string \<Rightarrow> world \<Rightarrow> error + Folder list" where
  "getAllDescendants parentId w =
     (case FolderService_findById parentId w of
        Inl e \<Rightarrow> Inl e
      | Inr parent \<Rightarrow> Inr (findDescendants w parent))"

definition getAncestors :: "string \<Rightarrow> world \<Rightarrow> error + Folder list" where
  "getAncestors folderId w =
     (case FolderService_findById folderId w of
        Inl e \<Rightarrow> Inl e
      | Inr folder \<Rightarrow> Inr (findAncestors w folder))"

text \<open>
  \<open>updateFolderPath\<close> calls itself for every descendant, and \<open>hardDelete\<close> for every
  child; on a closure table or parent column with a cycle neither returns. The first
  argument bounds the depth of the calls; \<open>None\<close> is a run that needs more.
\<close>

fun updateFolderPath :: "nat \<Rightarrow> string \<Rightarrow> world \<Rightarrow> ((error + unit) \<times> world) option" where
  "updateFolderPath 0 folderId w = None"
| "updateFolderPath (Suc depth) folderId w =
     (case FolderService_findById folderId w of
        Inl e \<Rightarrow> Some (Inl e, w)
      | Inr folder \<Rightarrow>
          (case getAncestors folderId w of
             Inl e \<Rightarrow> Some (Inl e, w)
           | Inr ancestors \<Rightarrow>
               (let pathParts = map folder_name (rev ancestors);
                    w1 = save_path folderId (''/'' @ intercalate ''/'' pathParts) w
                in case getAllDescendants folderId w1 of
                     Inl e \<Rightarrow> Some (Inl e, w1)
                   | Inr descendants \<Rightarrow>
                       forEach (\<lambda>descendant w'.
                                  if folder_id descendant \<noteq> folderId
                                  then updateFolderPath depth (folder_id descendant) w'
                                  else Some (Inr (), w'))
                         descendants w1)))"

definition FolderService_move ::
  "nat \<Rightarrow> string \<Rightarrow> string option \<Rightarrow> world \<Rightarrow> ((error + Folder) \<times> world) option" where
  "FolderService_move depth folderId targetParentId w =
     (case FolderService_findById folderId w of
        Inl e \<Rightarrow> Some (Inl e, w)
      | Inr folder \<Rightarrow>
          (case (if truthy targetParentId
                 then (case FolderService_findById (or_else targetParentId []) w of
                         Inl e \<Rightarrow> Inl e
                       | Inr targetParent \<Rightarrow>
                           (case getAllDescendants folderId w of
                              Inl e \<Rightarrow> Inl e
                            | Inr descendants \<Rightarrow>
                                if or_else targetParentId [] \<in> set (map folder_id descendants)
                                then Inl (Error ''Cannot move folder into itself or its descendants'')
                                else Inr (Some targetParent)))
                 else Inr None) of
             Inl e \<Rightarrow> Some (Inl e, w)
           | Inr targetParent \<Rightarrow>
               (let movedFolder = folder\<lparr>folder_parentId := targetParentId\<rparr>
                in case save_parent folderId targetParentId targetParent w of
                     Inl m \<Rightarrow> Some (Inl (QueryFailedError m), w)
                   | Inr w1 \<Rightarrow>
                       (case updateFolderPath depth folderId w1 of
                          None \<Rightarrow> None
                        | Some (Inl e, w2) \<Rightarrow> Some (Inl e, w2)
                        | Some (Inr u, w2) \<Rightarrow>
                            Some (Inr movedFolder,
                                  w2\<lparr>folder_log :=
                                       folder_log w2 @ [''Folder moved: '' @ folderId]\<rparr>)))))"

definition FolderService_softDelete ::
  "nat \<Rightarrow> string \<Rightarrow> string option \<Rightarrow> world \<Rightarrow> (error + Folder) \<times> world" where
  "FolderService_softDelete now folderId deletedBy w =
     (case FolderService_findById folderId w of
        Inl e \<Rightarrow> (Inl e, w)
      | Inr folder \<Rightarrow>
          (Inr (folder\<lparr>folder_deletedBy := deletedBy\<rparr>),
           w\<lparr>folders := map (\<lambda>f. if folder_id f = folderId
                                 then f\<lparr>folder_deletedAt := Some now\<rparr> else f) (folders w),
             files := map (\<lambda>f. if file_folderId f = Some folderId
                               then f\<lparr>file_deletedAt := Some now\<rparr> else f) (files w),
             folder_log := folder_log w @ [''Folder soft deleted: '' @ folderId]\<rparr>))"

fun FolderService_hardDelete ::
  "nat \<Rightarrow> string \<Rightarrow> bool \<Rightarrow> world \<Rightarrow> ((error + unit) \<times> world) option" where
  "FolderService_hardDelete 0 folderId force w = None"
| "FolderService_hardDelete (Suc depth) folderId force w =
     (case folder_findOne True folderId w of
        None \<Rightarrow> Some (Inl (FolderNotFoundException folderId), w)
      | Some folder \<Rightarrow>
          (let fileCount = length (filter (\<lambda>f. file_folderId f = Some folderId) (files w))
           in if fileCount > 0 \<and> \<not> force then Some (Inl (FolderNotEmptyException folderId), w)
              else
                (let w1 = (if force \<and> fileCount > 0
                           then w\<lparr>files := filter (\<lambda>f. file_folderId f \<noteq> Some folderId) (files w)\<rparr>
                           else w);
                     children = filter (\<lambda>f. folder_parentId f = Some folderId) (folders w1)
                 in if length children > 0 \<and> \<not> force
                    then Some (Inl (FolderNotEmptyException folderId), w1)
                    else
                      (case (if force \<and> length children > 0
                             then forEach (\<lambda>child w'. FolderService_hardDelete depth (folder_id child) True w')
                                    children w1
                             else Some (Inr (), w1)) of
                         None \<Rightarrow> None
                       | Some (Inl e, w2) \<Rightarrow> Some (Inl e, w2)
                       | Some (Inr u, w2) \<Rightarrow>
                           (let w3 = folder_remove (folder_id folder) w2
                            in Some (Inr (),
                                     w3\<lparr>folder_log :=
                                          folder_log w3 @ [''Folder hard deleted: '' @ folderId]\<rparr>))))))"

definition FolderService_restore :: "string \<Rightarrow> world \<Rightarrow> (error + Folder) \<times> world" where
  "FolderService_restore folderId w =
     (case folder_findOne True folderId w of
        None \<Rightarrow> (Inl (FolderNotFoundException folderId), w)
      | Some folder \<Rightarrow>
          (let w1 = w\<lparr>folders := map (\<lambda>f. if folder_id f = folderId
                                          then f\<lparr>folder_deletedAt := None\<rparr> else f) (folders w),
                      files := map (\<lambda>f. if file_folderId f = Some folderId
                                        then f\<lparr>file_deletedAt := None\<rparr> else f) (files w)\<rparr>
           in case FolderService_findById folderId w1 of
                Inl e \<Rightarrow> (Inl e, w1)
              | Inr restoredFolder \<Rightarrow>
                  (Inr restoredFolder,
                   w1\<lparr>folder_log := folder_log w1 @ [''Folder restored: '' @ folderId]\<rparr>)))"

definition getFolderWithStats :: "string \<Rightarrow> world \<Rightarrow> error + Folder" where
  "getFolderWithStats folderId w =
     (case FolderService_findById folderId w of
        Inl e \<Rightarrow> Inl e
      | Inr folder \<Rightarrow>
          (let stats = countAndSum folderId (files w)
           in Inr (folder\<lparr>folder_fileCount := parseInt (fst stats),
                          folder_totalSize := parseInt (snd stats)\<rparr>)))"

section \<open>Example states\<close>

text \<open>
  A small installation used for the concrete evaluations below: a local strategy under
  \<open>./uploads\<close> and an object store bucket \<open>media\<close>; a folder Docs with a child Reports;
  one file stored locally in Docs (as \<open>uploadFile\<close> leaves it: the row's path is the full
  path, it has no storage key) and one stored in the bucket, in Reports, whose key the
  service's credentials may not delete.
\<close>

definition local_config :: LocalStorageConfig where
  "local_config = \<lparr>uploadPath = ''./uploads''\<rparr>"

definition media_config :: AWSS3Config where
  "media_config = \<lparr>bucket = ''media''\<rparr>"

definition both_factory :: StorageFactory where
  "both_factory =
     initializeStrategies
       \<lparr>config_local = Some local_config, config_aws_s3 = Some media_config,
        config_digital_ocean = None, config_linux_folder = None\<rparr>"

definition s3_factory :: StorageFactory where
  "s3_factory =
     initializeStrategies
       \<lparr>config_local = None, config_aws_s3 = Some media_config,
        config_digital_ocean = None, config_linux_folder = None\<rparr>"

definition hello_file :: MulterFile where
  "hello_file = \<lparr>originalname = ''a.txt'', mimetype = ''text/plain'', buffer = ''hello''\<rparr>"

definition docs_folder :: Folder where
  "docs_folder =
     \<lparr>folder_id = ''F1'', folder_name = ''Docs'', folder_path = Some ''/Docs'',
      folder_parentId = None, folder_deletedBy = None, folder_fileCount = 1,
      folder_totalSize = 5, folder_deletedAt = None\<rparr>"

definition reports_folder :: Folder where
  "reports_folder =
     \<lparr>folder_id = ''F2'', folder_name = ''Reports'', folder_path = Some ''/Docs/Reports'',
      folder_parentId = Some ''F1'', folder_deletedBy = None, folder_fileCount = 1,
      folder_totalSize = 3, folder_deletedAt = None\<rparr>"

definition local_row :: File where
  "local_row =
     \<lparr>file_id = ''id1'', file_name = ''a.txt'', file_originalName = ''a.txt'',
      file_path = ''uploads/a.txt'', file_size = 5, file_mimetype = ''text/plain'',
      file_storageType = LOCAL, file_storageBucket = None, file_storageKey = None,
      file_folderId = Some ''F1'', file_uploadedBy = None, file_deletedBy = None,
      file_deletedAt = None\<rparr>"

definition s3_row :: File where
  "s3_row =
     \<lparr>file_id = ''id2'', file_name = ''b.txt'', file_originalName = ''b.txt'',
      file_path = ''b.txt'', file_size = 3, file_mimetype = ''text/plain'',
      file_storageType = AWS_S3, file_storageBucket = Some ''media'',
      file_storageKey = Some ''b.txt'', file_folderId = Some ''F2'', file_uploadedBy = None,
      file_deletedBy = None, file_deletedAt = None\<rparr>"

definition example_world :: world where
  "example_world =
     \<lparr>files = [local_row, s3_row],
      folders = [docs_folder, reports_folder],
      folders_closure = [(''F1'', ''F1''), (''F2'', ''F2''), (''F1'', ''F2'')],
      disk = \<lparr>fs_files = [(''uploads/a.txt'', ''hello'')], fs_denied = []\<rparr>,
      object_store =
        \<lparr>s3_objects = [((''media'', ''b.txt''), ''abc'')], s3_online = True,
         s3_denied = [(''media'', ''b.txt'')]\<rparr>,
      folder_log = []\<rparr>"

definition empty_world :: world where
  "empty_world =
     \<lparr>files = [], folders = [], folders_closure = [],
      disk = \<lparr>fs_files = [], fs_denied = []\<rparr>,
      object_store = \<lparr>s3_objects = [], s3_online = True, s3_denied = []\<rparr>,
      folder_log = []\<rparr>"

definition plain_dto :: FileUploadDto where
  "plain_dto =
     \<lparr>dto_filename = None, dto_folderId = None, dto_storageType = None,
      dto_uploadedBy = None\<rparr>"


section \<open>Evaluation of the examples\<close>

lemmas example_defs =
  example_world_def empty_world_def local_row_def s3_row_def docs_folder_def reports_folder_def
  local_config_def media_config_def both_factory_def s3_factory_def hello_file_def plain_dto_def
  initializeStrategies_def

lemma path_join_eval:
  "path_join ''./uploads'' ''uploads/a.txt'' = ''uploads/uploads/a.txt''"
  "path_join ''./uploads'' ''a.txt'' = ''uploads/a.txt''"
  "path_join ''./uploads'' ''gen.txt'' = ''uploads/gen.txt''"
  "path_join ''./uploads'' ''nothing.txt'' = ''uploads/nothing.txt''"
  by (simp_all add: path_join_def normalize_def)

section \<open>The object store's batch delete\<close>

text \<open>
  Claim C10. \<open>AWSS3Strategy.deleteMultiple\<close> returns one result per key, all of them the
  same: when the single batch request returns, every entry is
  \<open>{success: true, message: 'File deleted successfully'}\<close>, whatever the response says
  about individual keys; when the request throws, every entry is \<open>{success: false}\<close> with
  the message of that one error. The state of the store is whatever the request left.
  This holds for any client and any list of keys.
\<close>

theorem deleteMultiple_uniform:
  "AWSS3Strategy_deleteMultiple send cfg keys s =
     (replicate (length keys)
        (case fst (send (DeleteObjectsCommand (bucket cfg) keys) s) of
           Inl m \<Rightarrow> \<lparr>success = False, message = Some m\<rparr>
         | Inr response \<Rightarrow> \<lparr>success = True, message = Some ''File deleted successfully''\<rparr>),
      snd (send (DeleteObjectsCommand (bucket cfg) keys) s))"
  by (cases "send (DeleteObjectsCommand (bucket cfg) keys) s")
     (auto simp: AWSS3Strategy_deleteMultiple_def map_replicate_const split: sum.splits)

text \<open>
  On the example store the batch for \<open>b.txt\<close> and \<open>c.txt\<close> answers with an error entry
  for \<open>b.txt\<close> (which stays in the bucket), and both results still say success; with the
  store unreachable both say failure, with the same message.
\<close>

theorem deleteMultiple_uniform_witness:
  "fst (s3_send (DeleteObjectsCommand ''media'' [''b.txt'', ''c.txt'']) (object_store example_world))
     = Inr (DeleteObjectsOutput [''c.txt''] [(''b.txt'', ''AccessDenied'')])
   \<and> AWSS3Strategy_deleteMultiple s3_send media_config [''b.txt'', ''c.txt''] (object_store example_world)
     = ([\<lparr>success = True, message = Some ''File deleted successfully''\<rparr>,
         \<lparr>success = True, message = Some ''File deleted successfully''\<rparr>],
        object_store example_world)
   \<and> AWSS3Strategy_deleteMultiple s3_send media_config [''b.txt'', ''c.txt'']
        (object_store example_world\<lparr>s3_online := False\<rparr>)
     = ([\<lparr>success = False, message = Some ''connect ECONNREFUSED''\<rparr>,
         \<lparr>success = False, message = Some ''connect ECONNREFUSED''\<rparr>],
        object_store example_world\<lparr>s3_online := False\<rparr>)"
  using deleteMultiple_uniform [of s3_send media_config "[''b.txt'', ''c.txt'']" "object_store example_world"]
    deleteMultiple_uniform [of s3_send media_config "[''b.txt'', ''c.txt'']"
      "object_store example_world\<lparr>s3_online := False\<rparr>"]
  by (simp add: example_defs s3_send_def)

section \<open>Deleting an object that is not there\<close>

lemma local_delete_missing:
  "\<not> existsSync d (getFullPath cfg p) \<Longrightarrow>
     LocalStorageStrategy_delete cfg p d = (\<lparr>success = False, message = Some ''File not found''\<rparr>, d)"
  by (simp add: LocalStorageStrategy_delete_def)

lemma map_of_filter_neq: "map_of (filter (\<lambda>e. fst e \<noteq> p) xs) p = None"
  by (induction xs) auto

lemma local_delete_twice:
  "success (fst (LocalStorageStrategy_delete cfg p d)) \<Longrightarrow>
     LocalStorageStrategy_delete cfg p (snd (LocalStorageStrategy_delete cfg p d))
       = (\<lparr>success = False, message = Some ''File not found''\<rparr>,
          snd (LocalStorageStrategy_delete cfg p d))"
  by (auto simp: LocalStorageStrategy_delete_def Let_def existsSync_def unlink_def map_of_filter_neq
      split: if_splits sum.splits)

lemma s3_send_throws_keeps: "fst (s3_send c s) = Inl m \<Longrightarrow> snd (s3_send c s) = s"
  by (auto simp: s3_send_def split: if_splits s3_command.splits)

lemma s3_delete_answer:
  "fst (AWSS3Strategy_delete send cfg key s) =
     (case fst (send (DeleteObjectCommand (bucket cfg) key) s) of
        Inl m \<Rightarrow> \<lparr>success = False, message = Some m\<rparr>
      | Inr response \<Rightarrow> \<lparr>success = True, message = Some ''File deleted successfully''\<rparr>)"
  by (cases "send (DeleteObjectCommand (bucket cfg) key) s")
     (auto simp: AWSS3Strategy_delete_def split: sum.splits)

lemma s3_delete_state:
  "snd (AWSS3Strategy_delete send cfg key s) = snd (send (DeleteObjectCommand (bucket cfg) key) s)"
  by (cases "send (DeleteObjectCommand (bucket cfg) key) s")
     (auto simp: AWSS3Strategy_delete_def split: sum.splits)

text \<open>
  Claim C6, as the code has it. The two file-system strategies answer
  \<open>{success: false, message: 'File not found'}\<close> for a path whose full path does not
  exist, and change nothing; so a second delete after a successful one gets that answer.
  The two object-store strategies never look whether the key holds an object: the answer
  is \<open>{success: true}\<close> whenever the delete request returns, which it does for a key
  that holds nothing, and \<open>{success: false}\<close> with the error's message when the request
  throws. No strategy's \<open>delete\<close> throws: each returns a result.
\<close>

theorem delete_of_missing_object:
  "(\<not> existsSync (disk w) (getFullPath lcfg p) \<longrightarrow>
      strategy_delete (LocalStorageStrategy lcfg) p w
        = (\<lparr>success = False, message = Some ''File not found''\<rparr>, w)
    \<and> strategy_delete (LinuxFolderStrategy lcfg) p w
        = (\<lparr>success = False, message = Some ''File not found''\<rparr>, w))
   \<and> (success (fst (strategy_delete (LocalStorageStrategy lcfg) p w)) \<longrightarrow>
      strategy_delete (LocalStorageStrategy lcfg) p
          (snd (strategy_delete (LocalStorageStrategy lcfg) p w))
        = (\<lparr>success = False, message = Some ''File not found''\<rparr>,
           snd (strategy_delete (LocalStorageStrategy lcfg) p w)))
   \<and> fst (AWSS3Strategy_delete send scfg p s) =
       (case fst (send (DeleteObjectCommand (bucket scfg) p) s) of
          Inl m \<Rightarrow> \<lparr>success = False, message = Some m\<rparr>
        | Inr response \<Rightarrow> \<lparr>success = True, message = Some ''File deleted successfully''\<rparr>)
   \<and> (s3_online (object_store w) \<and> (bucket scfg, p) \<notin> set (s3_denied (object_store w)) \<longrightarrow>
      fst (strategy_delete (AWSS3Strategy scfg) p w)
        = \<lparr>success = True, message = Some ''File deleted successfully''\<rparr>
    \<and> fst (strategy_delete (DigitalOceanStrategy scfg) p w)
        = \<lparr>success = True, message = Some ''File deleted successfully''\<rparr>)
   \<and> (fst (s3_send (DeleteObjectCommand (bucket scfg) p) (object_store w)) = Inl m \<longrightarrow>
      strategy_delete (AWSS3Strategy scfg) p w = (\<lparr>success = False, message = Some m\<rparr>, w)
    \<and> strategy_delete (DigitalOceanStrategy scfg) p w = (\<lparr>success = False, message = Some m\<rparr>, w))"
proof (intro conjI impI)
  assume "\<not> existsSync (disk w) (getFullPath lcfg p)"
  then show "strategy_delete (LocalStorageStrategy lcfg) p w
        = (\<lparr>success = False, message = Some ''File not found''\<rparr>, w)"
    and "strategy_delete (LinuxFolderStrategy lcfg) p w
        = (\<lparr>success = False, message = Some ''File not found''\<rparr>, w)"
    by (simp_all add: local_delete_missing)
next
  assume "success (fst (strategy_delete (LocalStorageStrategy lcfg) p w))"
  then show "strategy_delete (LocalStorageStrategy lcfg) p
          (snd (strategy_delete (LocalStorageStrategy lcfg) p w))
        = (\<lparr>success = False, message = Some ''File not found''\<rparr>,
           snd (strategy_delete (LocalStorageStrategy lcfg) p w))"
    using local_delete_twice [of lcfg p "disk w"] by (simp add: case_prod_beta)
next
  show "fst (AWSS3Strategy_delete send scfg p s) =
       (case fst (send (DeleteObjectCommand (bucket scfg) p) s) of
          Inl m \<Rightarrow> \<lparr>success = False, message = Some m\<rparr>
        | Inr response \<Rightarrow> \<lparr>success = True, message = Some ''File deleted successfully''\<rparr>)"
    by (rule s3_delete_answer)
next
  assume "s3_online (object_store w) \<and> (bucket scfg, p) \<notin> set (s3_denied (object_store w))"
  then have "fst (AWSS3Strategy_delete s3_send scfg p (object_store w))
      = \<lparr>success = True, message = Some ''File deleted successfully''\<rparr>"
    by (simp add: s3_delete_answer s3_send_def)
  then show "fst (strategy_delete (AWSS3Strategy scfg) p w)
        = \<lparr>success = True, message = Some ''File deleted successfully''\<rparr>"
    and "fst (strategy_delete (DigitalOceanStrategy scfg) p w)
        = \<lparr>success = True, message = Some ''File deleted successfully''\<rparr>"
    by (simp_all add: case_prod_beta)
next
  assume thr: "fst (s3_send (DeleteObjectCommand (bucket scfg) p) (object_store w)) = Inl m"
  then have "AWSS3Strategy_delete s3_send scfg p (object_store w)
      = (\<lparr>success = False, message = Some m\<rparr>, object_store w)"
    using s3_delete_answer [of s3_send scfg p "object_store w"]
      s3_delete_state [of s3_send scfg p "object_store w"]
      s3_send_throws_keeps [OF thr]
    by (simp add: prod_eq_iff)
  then show "strategy_delete (AWSS3Strategy scfg) p w = (\<lparr>success = False, message = Some m\<rparr>, w)"
    and "strategy_delete (DigitalOceanStrategy scfg) p w = (\<lparr>success = False, message = Some m\<rparr>, w)"
    by simp_all
qed

text \<open>
  On the example installation: \<open>nothing.txt\<close> exists in neither store; the local
  strategies say so, the object store says success. Deleting the local file
  \<open>a.txt\<close> succeeds once and is refused the second time; deleting the denied key
  \<open>b.txt\<close> is a failure result, not an exception.
\<close>

theorem delete_of_missing_object_witness:
  "\<not> existsSync (disk example_world) (getFullPath local_config ''nothing.txt'')
   \<and> strategy_delete (LocalStorageStrategy local_config) ''nothing.txt'' example_world
       = (\<lparr>success = False, message = Some ''File not found''\<rparr>, example_world)
   \<and> strategy_delete (LinuxFolderStrategy local_config) ''nothing.txt'' example_world
       = (\<lparr>success = False, message = Some ''File not found''\<rparr>, example_world)
   \<and> success (fst (strategy_delete (LocalStorageStrategy local_config) ''a.txt'' example_world))
   \<and> fst (strategy_delete (LocalStorageStrategy local_config) ''a.txt''
            (snd (strategy_delete (LocalStorageStrategy local_config) ''a.txt'' example_world)))
       = \<lparr>success = False, message = Some ''File not found''\<rparr>
   \<and> s3_online (object_store example_world)
   \<and> (bucket media_config, ''nothing.txt'') \<notin> set (s3_denied (object_store example_world))
   \<and> fst (strategy_delete (AWSS3Strategy media_config) ''nothing.txt'' example_world)
       = \<lparr>success = True, message = Some ''File deleted successfully''\<rparr>
   \<and> fst (s3_send (DeleteObjectCommand (bucket media_config) ''b.txt'') (object_store example_world))
       = Inl ''Access Denied''
   \<and> strategy_delete (DigitalOceanStrategy media_config) ''b.txt'' example_world
       = (\<lparr>success = False, message = Some ''Access Denied''\<rparr>, example_world)"
proof -
  have h1: "\<not> existsSync (disk example_world) (getFullPath local_config ''nothing.txt'')"
    by (simp add: existsSync_def getFullPath_def path_join_eval example_defs)
  have h2: "s3_online (object_store example_world)
      \<and> (bucket media_config, ''nothing.txt'') \<notin> set (s3_denied (object_store example_world))"
    by (simp add: example_defs)
  have h3: "fst (s3_send (DeleteObjectCommand (bucket media_config) ''b.txt'') (object_store example_world))
       = Inl ''Access Denied''"
    by (simp add: example_defs s3_send_def)
  have h4: "success (fst (strategy_delete (LocalStorageStrategy local_config) ''a.txt'' example_world))"
    by (simp add: LocalStorageStrategy_delete_def existsSync_def unlink_def getFullPath_def
        path_join_eval example_defs)
  show ?thesis
    using h1 h2 h3 h4
      delete_of_missing_object [of example_world local_config "''nothing.txt''" s3_send media_config
        "object_store example_world" "''Access Denied''"]
      delete_of_missing_object [of example_world local_config "''b.txt''" s3_send media_config
        "object_store example_world" "''Access Denied''"]
      delete_of_missing_object [of example_world local_config "''a.txt''" s3_send media_config
        "object_store example_world" "''Access Denied''"]
    by simp
qed

text \<open>
  The claim as written fails for the object store: the bucket holds nothing under
  \<open>nothing.txt\<close>, and \<open>delete\<close> reports success.
\<close>

theorem s3_delete_missing_key_counterexample:
  "map_of (s3_objects (object_store example_world)) (''media'', ''nothing.txt'') = None
   \<and> fst (strategy_delete (AWSS3Strategy media_config) ''nothing.txt'' example_world)
       = \<lparr>success = True, message = Some ''File deleted successfully''\<rparr>"
  by (simp add: example_defs AWSS3Strategy_delete_def s3_send_def)

section \<open>Soft delete and the deleter's identity\<close>

lemma find_Some_D: "find P xs = Some x \<Longrightarrow> x \<in> set xs \<and> P x"
  by (induction xs) (auto split: if_splits)

lemma map_if_mem:
  "x \<in> set rows \<Longrightarrow> P x \<Longrightarrow> g x \<in> set (map (\<lambda>f. if P f then g f else f) rows)"
  by (induction rows) auto

lemma map_deletedAt_only_file:
  "map (\<lambda>f. f\<lparr>file_deletedAt := None\<rparr>)
       (map (\<lambda>f. if P f then f\<lparr>file_deletedAt := t\<rparr> else f) rows)
   = map (\<lambda>f. f\<lparr>file_deletedAt := None\<rparr>) rows"
  by (induction rows) auto

lemma map_deletedAt_only_folder:
  "map (\<lambda>f. f\<lparr>folder_deletedAt := None\<rparr>)
       (map (\<lambda>f. if P f then f\<lparr>folder_deletedAt := t\<rparr> else f) rows)
   = map (\<lambda>f. f\<lparr>folder_deletedAt := None\<rparr>) rows"
  by (induction rows) auto

lemma file_marked:
  "row \<in> set (map (\<lambda>f. if file_id f = i then f\<lparr>file_deletedAt := t\<rparr> else f) rows) \<Longrightarrow>
     file_id row = i \<Longrightarrow> file_deletedAt row = t"
proof (induction rows)
  case Nil
  then show ?case by simp
next
  case (Cons a rows)
  show ?case
  proof (cases "file_id a = i")
    case True
    with Cons show ?thesis by (cases "row = a\<lparr>file_deletedAt := t\<rparr>") simp_all
  next
    case False
    with Cons show ?thesis by (cases "row = a") simp_all
  qed
qed

lemma folder_marked:
  "row \<in> set (map (\<lambda>f. if folder_id f = i then f\<lparr>folder_deletedAt := t\<rparr> else f) rows) \<Longrightarrow>
     folder_id row = i \<Longrightarrow> folder_deletedAt row = t"
proof (induction rows)
  case Nil
  then show ?case by simp
next
  case (Cons a rows)
  show ?case
  proof (cases "folder_id a = i")
    case True
    with Cons show ?thesis by (cases "row = a\<lparr>folder_deletedAt := t\<rparr>") simp_all
  next
    case False
    with Cons show ?thesis by (cases "row = a") simp_all
  qed
qed

lemma FileService_softDelete_files:
  "map (\<lambda>f. f\<lparr>file_deletedAt := None\<rparr>) (files (snd (FileService_softDelete now fileId who w)))
     = map (\<lambda>f. f\<lparr>file_deletedAt := None\<rparr>) (files w)"
  by (simp add: FileService_softDelete_def file_softDelete_def map_deletedAt_only_file
      split: sum.splits)

lemma FileService_softDelete_folders:
  "folders (snd (FileService_softDelete now fileId who w)) = folders w"
  by (simp add: FileService_softDelete_def file_softDelete_def split: sum.splits)

lemma FolderService_softDelete_folders:
  "map (\<lambda>f. f\<lparr>folder_deletedAt := None\<rparr>)
       (folders (snd (FolderService_softDelete now folderId who w)))
     = map (\<lambda>f. f\<lparr>folder_deletedAt := None\<rparr>) (folders w)"
  by (simp add: FolderService_softDelete_def map_deletedAt_only_folder split: sum.splits)

lemma FolderService_softDelete_files:
  "map (\<lambda>f. f\<lparr>file_deletedAt := None\<rparr>)
       (files (snd (FolderService_softDelete now folderId who w)))
     = map (\<lambda>f. f\<lparr>file_deletedAt := None\<rparr>) (files w)"
  by (simp add: FolderService_softDelete_def map_deletedAt_only_file split: sum.splits)

lemma same_file_deletedBy:
  assumes "map (\<lambda>f. f\<lparr>file_deletedAt := None\<rparr>) rows' = map (\<lambda>f. f\<lparr>file_deletedAt := None\<rparr>) rows"
  shows "map file_deletedBy rows' = map file_deletedBy rows"
proof -
  have "map file_deletedBy (map (\<lambda>f. f\<lparr>file_deletedAt := None\<rparr>) rows')
      = map file_deletedBy (map (\<lambda>f. f\<lparr>file_deletedAt := None\<rparr>) rows)"
    by (simp only: assms)
  then show ?thesis by (simp add: comp_def)
qed

lemma same_folder_deletedBy:
  assumes "map (\<lambda>f. f\<lparr>folder_deletedAt := None\<rparr>) rows' = map (\<lambda>f. f\<lparr>folder_deletedAt := None\<rparr>) rows"
  shows "map folder_deletedBy rows' = map folder_deletedBy rows"
proof -
  have "map folder_deletedBy (map (\<lambda>f. f\<lparr>folder_deletedAt := None\<rparr>) rows')
      = map folder_deletedBy (map (\<lambda>f. f\<lparr>folder_deletedAt := None\<rparr>) rows)"
    by (simp only: assms)
  then show ?thesis by (simp add: comp_def)
qed

lemma FileService_softDelete_Inr:
  "FileService_softDelete now fileId who w = (Inr file, w') \<Longrightarrow>
     \<exists>old. file_findOne False fileId w = Some old
        \<and> file = (if truthy who then old\<lparr>file_deletedBy := who\<rparr> else old)
        \<and> w' = file_softDelete now fileId w"
  unfolding FileService_softDelete_def FileService_findById_def
  by (cases "file_findOne False fileId w") (simp_all split: if_splits)

lemma FolderService_softDelete_Inr:
  "FolderService_softDelete now folderId who w = (Inr folder, w') \<Longrightarrow>
     \<exists>old. folder_findOne False folderId w = Some old
        \<and> folder = old\<lparr>folder_deletedBy := who\<rparr>
        \<and> folders w' = map (\<lambda>f. if folder_id f = folderId
                               then f\<lparr>folder_deletedAt := Some now\<rparr> else f) (folders w)"
  unfolding FolderService_softDelete_def FolderService_findById_def
  by (cases "folder_findOne False folderId w") auto

lemma FileService_softDelete_ok:
  assumes h: "FileService_softDelete now fileId who w = (Inr file, w')" and t: "truthy who"
  shows "file_deletedBy file = who
        \<and> (\<exists>row \<in> set (files w'). file_id row = fileId)
        \<and> (\<forall>row \<in> set (files w'). file_id row = fileId \<longrightarrow> file_deletedAt row = Some now)"
proof -
  from FileService_softDelete_Inr [OF h] obtain old where old: "file_findOne False fileId w = Some old"
    and f: "file = (if truthy who then old\<lparr>file_deletedBy := who\<rparr> else old)"
    and w': "w' = file_softDelete now fileId w"
    by (elim exE conjE)
  from find_Some_D [OF old [unfolded file_findOne_def]]
  have mem: "old \<in> set (files w)" and oid: "file_id old = fileId"
    by simp_all
  have fs: "files w' = map (\<lambda>f. if file_id f = fileId then f\<lparr>file_deletedAt := Some now\<rparr> else f) (files w)"
    by (simp add: w' file_softDelete_def)
  have "old\<lparr>file_deletedAt := Some now\<rparr> \<in> set (files w')"
    unfolding fs
    using map_if_mem [OF mem, of "\<lambda>f. file_id f = fileId" "\<lambda>f. f\<lparr>file_deletedAt := Some now\<rparr>"] oid
    by simp
  then have ex: "\<exists>row \<in> set (files w'). file_id row = fileId"
    using oid by (intro bexI [of _ "old\<lparr>file_deletedAt := Some now\<rparr>"]) simp_all
  have al: "\<forall>row \<in> set (files w'). file_id row = fileId \<longrightarrow> file_deletedAt row = Some now"
    unfolding fs using file_marked by blast
  from f t have "file_deletedBy file = who" by simp
  with ex al show ?thesis by (intro conjI)
qed

lemma FolderService_softDelete_ok:
  assumes h: "FolderService_softDelete now folderId who w = (Inr folder, w')"
  shows "folder_deletedBy folder = who
        \<and> (\<exists>row \<in> set (folders w'). folder_id row = folderId)
        \<and> (\<forall>row \<in> set (folders w'). folder_id row = folderId \<longrightarrow> folder_deletedAt row = Some now)"
proof -
  from FolderService_softDelete_Inr [OF h] obtain old where old: "folder_findOne False folderId w = Some old"
    and f: "folder = old\<lparr>folder_deletedBy := who\<rparr>"
    and fs: "folders w' = map (\<lambda>f. if folder_id f = folderId
                               then f\<lparr>folder_deletedAt := Some now\<rparr> else f) (folders w)"
    by (elim exE conjE)
  from find_Some_D [OF old [unfolded folder_findOne_def]]
  have mem: "old \<in> set (folders w)" and oid: "folder_id old = folderId"
    by simp_all
  have "old\<lparr>folder_deletedAt := Some now\<rparr> \<in> set (folders w')"
    unfolding fs
    using map_if_mem [OF mem, of "\<lambda>f. folder_id f = folderId" "\<lambda>f. f\<lparr>folder_deletedAt := Some now\<rparr>"] oid
    by simp
  then have ex: "\<exists>row \<in> set (folders w'). folder_id row = folderId"
    using oid by (intro bexI [of _ "old\<lparr>folder_deletedAt := Some now\<rparr>"]) simp_all
  have al: "\<forall>row \<in> set (folders w'). folder_id row = folderId \<longrightarrow> folder_deletedAt row = Some now"
    unfolding fs using folder_marked by blast
  from f have "folder_deletedBy folder = who" by simp
  with ex al show ?thesis by (intro conjI)
qed

text \<open>
  Claim C9. A soft delete writes the deletion timestamp and nothing else: for the file
  service and for the folder service the rows after the call equal the rows before it
  up to \<open>deletedAt\<close>, so in particular every stored \<open>deletedBy\<close> is what it was
  (the folder service's cascade marks the folder's files the same way). When the call
  succeeds, the rows with the given id carry the new timestamp, and the deleter's
  identity is found only on the entity the call returns.
\<close>

theorem softDelete_deletedBy_not_persisted:
  "map (\<lambda>f. f\<lparr>file_deletedAt := None\<rparr>) (files (snd (FileService_softDelete now fileId who w)))
     = map (\<lambda>f. f\<lparr>file_deletedAt := None\<rparr>) (files w)
   \<and> folders (snd (FileService_softDelete now fileId who w)) = folders w
   \<and> map (\<lambda>f. f\<lparr>folder_deletedAt := None\<rparr>) (folders (snd (FolderService_softDelete now folderId who w)))
     = map (\<lambda>f. f\<lparr>folder_deletedAt := None\<rparr>) (folders w)
   \<and> map (\<lambda>f. f\<lparr>file_deletedAt := None\<rparr>) (files (snd (FolderService_softDelete now folderId who w)))
     = map (\<lambda>f. f\<lparr>file_deletedAt := None\<rparr>) (files w)
   \<and> map file_deletedBy (files (snd (FileService_softDelete now fileId who w)))
     = map file_deletedBy (files w)
   \<and> map folder_deletedBy (folders (snd (FolderService_softDelete now folderId who w)))
     = map folder_deletedBy (folders w)
   \<and> (FileService_softDelete now fileId who w = (Inr file, w') \<and> truthy who \<longrightarrow>
        file_deletedBy file = who
        \<and> (\<exists>row \<in> set (files w'). file_id row = fileId)
        \<and> (\<forall>row \<in> set (files w'). file_id row = fileId \<longrightarrow> file_deletedAt row = Some now))
   \<and> (FolderService_softDelete now folderId who w = (Inr folder, w'') \<longrightarrow>
        folder_deletedBy folder = who
        \<and> (\<exists>row \<in> set (folders w''). folder_id row = folderId)
        \<and> (\<forall>row \<in> set (folders w''). folder_id row = folderId \<longrightarrow> folder_deletedAt row = Some now))"
proof (intro conjI impI)
  show "map (\<lambda>f. f\<lparr>file_deletedAt := None\<rparr>) (files (snd (FileService_softDelete now fileId who w)))
     = map (\<lambda>f. f\<lparr>file_deletedAt := None\<rparr>) (files w)"
    by (rule FileService_softDelete_files)
  show "folders (snd (FileService_softDelete now fileId who w)) = folders w"
    by (rule FileService_softDelete_folders)
  show "map (\<lambda>f. f\<lparr>folder_deletedAt := None\<rparr>) (folders (snd (FolderService_softDelete now folderId who w)))
     = map (\<lambda>f. f\<lparr>folder_deletedAt := None\<rparr>) (folders w)"
    by (rule FolderService_softDelete_folders)
  show "map (\<lambda>f. f\<lparr>file_deletedAt := None\<rparr>) (files (snd (FolderService_softDelete now folderId who w)))
     = map (\<lambda>f. f\<lparr>file_deletedAt := None\<rparr>) (files w)"
    by (rule FolderService_softDelete_files)
  show "map file_deletedBy (files (snd (FileService_softDelete now fileId who w)))
     = map file_deletedBy (files w)"
    by (rule same_file_deletedBy [OF FileService_softDelete_files])
  show "map folder_deletedBy (folders (snd (FolderService_softDelete now folderId who w)))
     = map folder_deletedBy (folders w)"
    by (rule same_folder_deletedBy [OF FolderService_softDelete_folders])
next
  assume h: "FileService_softDelete now fileId who w = (Inr file, w') \<and> truthy who"
  from FileService_softDelete_ok [OF conjunct1 [OF h] conjunct2 [OF h]]
  show "file_deletedBy file = who"
    and "\<exists>row \<in> set (files w'). file_id row = fileId"
    and "\<forall>row \<in> set (files w'). file_id row = fileId \<longrightarrow> file_deletedAt row = Some now"
    by blast+
next
  assume h: "FolderService_softDelete now folderId who w = (Inr folder, w'')"
  from FolderService_softDelete_ok [OF h]
  show "folder_deletedBy folder = who"
    and "\<exists>row \<in> set (folders w''). folder_id row = folderId"
    and "\<forall>row \<in> set (folders w''). folder_id row = folderId \<longrightarrow> folder_deletedAt row = Some now"
    by blast+
qed

lemma softDelete_file_eval:
  "FileService_softDelete 7 ''id1'' (Some ''admin'') example_world
     = (Inr (local_row\<lparr>file_deletedBy := Some ''admin''\<rparr>),
        example_world\<lparr>files := [local_row\<lparr>file_deletedAt := Some 7\<rparr>, s3_row]\<rparr>)"
  by (simp add: FileService_softDelete_def FileService_findById_def file_findOne_def
      file_softDelete_def truthy_def example_world_def local_row_def s3_row_def)

lemma softDelete_folder_eval:
  "FolderService_softDelete 7 ''F1'' (Some ''admin'') example_world
     = (Inr (docs_folder\<lparr>folder_deletedBy := Some ''admin''\<rparr>),
        example_world\<lparr>folders := [docs_folder\<lparr>folder_deletedAt := Some 7\<rparr>, reports_folder],
                      files := [local_row\<lparr>file_deletedAt := Some 7\<rparr>, s3_row],
                      folder_log := [''Folder soft deleted: F1'']\<rparr>)"
  by (simp add: FolderService_softDelete_def FolderService_findById_def folder_findOne_def
      example_world_def local_row_def s3_row_def docs_folder_def reports_folder_def)

text \<open>
  On the example: an administrator soft-deletes the local file, then the folder Docs. The
  returned entities name the administrator; the stored \<open>deletedBy\<close> columns stay NULL.
\<close>

theorem softDelete_deletedBy_not_persisted_witness:
  "FileService_softDelete 7 ''id1'' (Some ''admin'') example_world
     = (Inr (local_row\<lparr>file_deletedBy := Some ''admin''\<rparr>),
        example_world\<lparr>files := [local_row\<lparr>file_deletedAt := Some 7\<rparr>, s3_row]\<rparr>)
   \<and> truthy (Some ''admin'')
   \<and> file_deletedBy (local_row\<lparr>file_deletedBy := Some ''admin''\<rparr>) = Some ''admin''
   \<and> map file_deletedBy (files (snd (FileService_softDelete 7 ''id1'' (Some ''admin'') example_world)))
       = [None, None]
   \<and> map file_deletedAt (files (snd (FileService_softDelete 7 ''id1'' (Some ''admin'') example_world)))
       = [Some 7, None]
   \<and> FolderService_softDelete 7 ''F1'' (Some ''admin'') example_world
     = (Inr (docs_folder\<lparr>folder_deletedBy := Some ''admin''\<rparr>),
        example_world\<lparr>folders := [docs_folder\<lparr>folder_deletedAt := Some 7\<rparr>, reports_folder],
                      files := [local_row\<lparr>file_deletedAt := Some 7\<rparr>, s3_row],
                      folder_log := [''Folder soft deleted: F1'']\<rparr>)
   \<and> map folder_deletedBy (folders (snd (FolderService_softDelete 7 ''F1'' (Some ''admin'') example_world)))
       = [None, None]
   \<and> map folder_deletedAt (folders (snd (FolderService_softDelete 7 ''F1'' (Some ''admin'') example_world)))
       = [Some 7, None]"
  using softDelete_deletedBy_not_persisted [of 7 "''id1''" "Some ''admin''" example_world "''F1''"
      "local_row\<lparr>file_deletedBy := Some ''admin''\<rparr>"
      "example_world\<lparr>files := [local_row\<lparr>file_deletedAt := Some 7\<rparr>, s3_row]\<rparr>"
      "docs_folder\<lparr>folder_deletedBy := Some ''admin''\<rparr>"
      "example_world\<lparr>folders := [docs_folder\<lparr>folder_deletedAt := Some 7\<rparr>, reports_folder],
                      files := [local_row\<lparr>file_deletedAt := Some 7\<rparr>, s3_row],
                      folder_log := [''Folder soft deleted: F1'']\<rparr>"]
  by (simp add: softDelete_file_eval softDelete_folder_eval truthy_def local_row_def s3_row_def
      docs_folder_def reports_folder_def)

section \<open>Live folder statistics\<close>

lemma countAndSum_acc:
  "foldl (\<lambda>acc f. if file_folderId f = Some F \<and> file_deletedAt f = None
                     then (fst acc + 1, snd acc + file_size f) else acc) (c, t) rows
   = (c + length (filter (\<lambda>f. file_folderId f = Some F \<and> file_deletedAt f = None) rows),
      t + sum_list (map file_size
            (filter (\<lambda>f. file_folderId f = Some F \<and> file_deletedAt f = None) rows)))"
  by (induction rows arbitrary: c t) auto

lemma countAndSum_eq:
  "countAndSum F rows =
     (length (filter (\<lambda>f. file_folderId f = Some F \<and> file_deletedAt f = None) rows),
      sum_list (map file_size
        (filter (\<lambda>f. file_folderId f = Some F \<and> file_deletedAt f = None) rows)))"
  by (simp add: countAndSum_def countAndSum_acc)

text \<open>
  Rounding to a double moves a number by at most half the weight of the last of its 53
  significant bits.
\<close>

lemma to_double_near:
  "n \<le> to_double n + 2 ^ (bit_length n - 54) \<and> to_double n \<le> n + 2 ^ (bit_length n - 54)"
proof (cases "bit_length n - 53 = 0")
  case True
  then show ?thesis by (simp add: to_double_def)
next
  case False
  define e where "e = bit_length n - 53"
  define H :: nat where "H = 2 ^ (e - 1)"
  define r where "r = n mod 2 ^ e"
  define A where "A = (n div 2 ^ e) * 2 ^ e"
  from False have e: "e = Suc (e - 1)" by (simp add: e_def)
  have P: "(2::nat) ^ e = 2 * H"
    unfolding H_def by (subst e) simp
  have n: "n = A + r"
    unfolding A_def r_def by (rule div_mult_mod_eq [symmetric])
  have r: "r < 2 * H"
    unfolding r_def P [symmetric] by simp
  have up: "(n div 2 ^ e + 1) * 2 ^ e = A + 2 * H"
    by (simp add: A_def P algebra_simps)
  have e54: "bit_length n - 54 = e - 1" by (simp add: e_def)
  have td: "to_double n = (if r > H \<or> (r = H \<and> odd (n div 2 ^ e))
                           then (n div 2 ^ e + 1) * 2 ^ e else A)"
    using False by (simp add: to_double_def Let_def e_def r_def H_def A_def)
  show ?thesis
    unfolding td e54 H_def [symmetric] up
    using n r by auto
qed

lemma parseInt_near:
  "n \<le> parseInt n + 2 ^ (bit_length n - 54) \<and> parseInt n \<le> n + 2 ^ (bit_length n - 54)"
  using to_double_near [of n] by (simp add: parseInt_def)

text \<open>
  Claim C8, as the code has it. For a folder that \<open>findById\<close> finds, \<open>getFolderWithStats\<close>
  returns the folder with \<open>fileCount\<close> and \<open>totalSize\<close> computed from the rows of \<open>files\<close>
  with this \<open>folderId\<close> and no deletion timestamp, in whatever state the tables are:
  the folder's stored \<open>fileCount\<close> and \<open>totalSize\<close> are overwritten, never read. The
  number of those rows and the sum of their sizes each pass through \<open>parseInt\<close> into a
  JavaScript number. Up to \<open>2^53\<close> that is the number itself; above, it is the number
  rounded to 53 significant bits, off by at most \<open>2^(k - 54)\<close> for a number of \<open>k\<close> bits.
\<close>

theorem getFolderWithStats_live:
  assumes "FolderService_findById F w = Inr folder"
  shows "getFolderWithStats F w =
     Inr (folder\<lparr>folder_fileCount :=
                   parseInt (length (filter (\<lambda>f. file_folderId f = Some F \<and> file_deletedAt f = None)
                                       (files w))),
                 folder_totalSize :=
                   parseInt (sum_list (map file_size
                     (filter (\<lambda>f. file_folderId f = Some F \<and> file_deletedAt f = None) (files w))))\<rparr>)
     \<and> (length (filter (\<lambda>f. file_folderId f = Some F \<and> file_deletedAt f = None) (files w)) \<le> 2 ^ 53 \<longrightarrow>
          parseInt (length (filter (\<lambda>f. file_folderId f = Some F \<and> file_deletedAt f = None) (files w)))
            = length (filter (\<lambda>f. file_folderId f = Some F \<and> file_deletedAt f = None) (files w)))
     \<and> (sum_list (map file_size
           (filter (\<lambda>f. file_folderId f = Some F \<and> file_deletedAt f = None) (files w))) \<le> 2 ^ 53 \<longrightarrow>
          parseInt (sum_list (map file_size
                     (filter (\<lambda>f. file_folderId f = Some F \<and> file_deletedAt f = None) (files w))))
            = sum_list (map file_size
                (filter (\<lambda>f. file_folderId f = Some F \<and> file_deletedAt f = None) (files w))))
     \<and> sum_list (map file_size
           (filter (\<lambda>f. file_folderId f = Some F \<and> file_deletedAt f = None) (files w)))
         \<le> parseInt (sum_list (map file_size
                      (filter (\<lambda>f. file_folderId f = Some F \<and> file_deletedAt f = None) (files w))))
           + 2 ^ (bit_length (sum_list (map file_size
                    (filter (\<lambda>f. file_folderId f = Some F \<and> file_deletedAt f = None) (files w)))) - 54)
     \<and> parseInt (sum_list (map file_size
                   (filter (\<lambda>f. file_folderId f = Some F \<and> file_deletedAt f = None) (files w))))
         \<le> sum_list (map file_size
               (filter (\<lambda>f. file_folderId f = Some F \<and> file_deletedAt f = None) (files w)))
           + 2 ^ (bit_length (sum_list (map file_size
                    (filter (\<lambda>f. file_folderId f = Some F \<and> file_deletedAt f = None) (files w)))) - 54)"
proof -
  define L where "L = filter (\<lambda>f. file_folderId f = Some F \<and> file_deletedAt f = None) (files w)"
  have "getFolderWithStats F w =
     Inr (folder\<lparr>folder_fileCount := parseInt (length L),
                 folder_totalSize := parseInt (sum_list (map file_size L))\<rparr>)"
    using assms by (simp add: getFolderWithStats_def countAndSum_eq L_def)
  moreover have "length L \<le> 2 ^ 53 \<longrightarrow> parseInt (length L) = length L"
    by (simp add: parseInt_def)
  moreover have "sum_list (map file_size L) \<le> 2 ^ 53 \<longrightarrow>
      parseInt (sum_list (map file_size L)) = sum_list (map file_size L)"
    by (simp add: parseInt_def)
  moreover note parseInt_near [of "sum_list (map file_size L)"]
  ultimately show ?thesis unfolding L_def by blast
qed

text \<open>
  Docs with a stale cache (40 files, 0 bytes), two live files of 5 and 2000 bytes, one
  soft-deleted file, and a file of another folder: the answer is 2 files, 2005 bytes.
\<close>

theorem getFolderWithStats_live_witness:
  "FolderService_findById ''F1''
       (example_world\<lparr>folders := [docs_folder\<lparr>folder_fileCount := 40, folder_totalSize := 0\<rparr>, reports_folder],
                      files := [local_row, s3_row, local_row\<lparr>file_id := ''id3'', file_size := 2000\<rparr>,
                                local_row\<lparr>file_id := ''id4'', file_deletedAt := Some 3\<rparr>]\<rparr>)
     = Inr (docs_folder\<lparr>folder_fileCount := 40, folder_totalSize := 0\<rparr>)
   \<and> length (filter (\<lambda>f. file_folderId f = Some ''F1'' \<and> file_deletedAt f = None)
         (files
       (example_world\<lparr>folders := [docs_folder\<lparr>folder_fileCount := 40, folder_totalSize := 0\<rparr>, reports_folder],
                      files := [local_row, s3_row, local_row\<lparr>file_id := ''id3'', file_size := 2000\<rparr>,
                                local_row\<lparr>file_id := ''id4'', file_deletedAt := Some 3\<rparr>]\<rparr>))) = 2
   \<and> sum_list (map file_size (filter (\<lambda>f. file_folderId f = Some ''F1'' \<and> file_deletedAt f = None)
         (files
       (example_world\<lparr>folders := [docs_folder\<lparr>folder_fileCount := 40, folder_totalSize := 0\<rparr>, reports_folder],
                      files := [local_row, s3_row, local_row\<lparr>file_id := ''id3'', file_size := 2000\<rparr>,
                                local_row\<lparr>file_id := ''id4'', file_deletedAt := Some 3\<rparr>]\<rparr>)))) = 2005
   \<and> getFolderWithStats ''F1''
       (example_world\<lparr>folders := [docs_folder\<lparr>folder_fileCount := 40, folder_totalSize := 0\<rparr>, reports_folder],
                      files := [local_row, s3_row, local_row\<lparr>file_id := ''id3'', file_size := 2000\<rparr>,
                                local_row\<lparr>file_id := ''id4'', file_deletedAt := Some 3\<rparr>]\<rparr>)
     = Inr (docs_folder\<lparr>folder_fileCount := 2, folder_totalSize := 2005\<rparr>)"
proof -
  let ?w = "example_world\<lparr>folders := [docs_folder\<lparr>folder_fileCount := 40, folder_totalSize := 0\<rparr>, reports_folder],
                      files := [local_row, s3_row, local_row\<lparr>file_id := ''id3'', file_size := 2000\<rparr>,
                                local_row\<lparr>file_id := ''id4'', file_deletedAt := Some 3\<rparr>]\<rparr>"
  have f: "FolderService_findById ''F1'' ?w = Inr (docs_folder\<lparr>folder_fileCount := 40, folder_totalSize := 0\<rparr>)"
    by (simp add: FolderService_findById_def folder_findOne_def docs_folder_def)
  have l: "filter (\<lambda>f. file_folderId f = Some ''F1'' \<and> file_deletedAt f = None) (files ?w)
      = [local_row, local_row\<lparr>file_id := ''id3'', file_size := 2000\<rparr>]"
    by (simp add: local_row_def s3_row_def)
  have s: "sum_list (map file_size [local_row, local_row\<lparr>file_id := ''id3'', file_size := 2000\<rparr>]) = 2005"
    by (simp add: local_row_def)
  from getFolderWithStats_live [OF f]
  have "getFolderWithStats ''F1'' ?w =
     Inr (docs_folder\<lparr>folder_fileCount := 40, folder_totalSize := 0\<rparr>
            \<lparr>folder_fileCount :=
                   parseInt (length (filter (\<lambda>f. file_folderId f = Some ''F1'' \<and> file_deletedAt f = None)
                                       (files ?w))),
                 folder_totalSize :=
                   parseInt (sum_list (map file_size
                     (filter (\<lambda>f. file_folderId f = Some ''F1'' \<and> file_deletedAt f = None) (files ?w))))\<rparr>)"
    by (rule conjunct1)
  then have "getFolderWithStats ''F1'' ?w
     = Inr (docs_folder\<lparr>folder_fileCount := 2, folder_totalSize := 2005\<rparr>)"
    by (simp only: l s) (simp add: parseInt_def)
  moreover have "length (filter (\<lambda>f. file_folderId f = Some ''F1'' \<and> file_deletedAt f = None)
                   (files ?w)) = 2"
    by (simp only: l) simp
  moreover have "sum_list (map file_size
                   (filter (\<lambda>f. file_folderId f = Some ''F1'' \<and> file_deletedAt f = None)
                      (files ?w))) = 2005"
    by (simp only: l s)
  ultimately show ?thesis using f by (intro conjI)
qed

lemma bit_length_example: "bit_length 9007199254740995 = 54"
  by (simp add: bit_length.simps)

text \<open>
  The claim as written fails above \<open>2^53\<close>: two live files of Docs, of \<open>2^53\<close> bytes and
  of 3 bytes, sum to 9007199254740995; the answer is 9007199254740996.
\<close>

theorem getFolderWithStats_rounds_counterexample:
  "FolderService_findById ''F1''
       (example_world\<lparr>files := [local_row\<lparr>file_size := 9007199254740992\<rparr>,
                                local_row\<lparr>file_id := ''id3'', file_size := 3\<rparr>]\<rparr>)
     = Inr docs_folder
   \<and> sum_list (map file_size
        (filter (\<lambda>f. file_folderId f = Some ''F1'' \<and> file_deletedAt f = None)
           (files (example_world\<lparr>files := [local_row\<lparr>file_size := 9007199254740992\<rparr>,
                                            local_row\<lparr>file_id := ''id3'', file_size := 3\<rparr>]\<rparr>))))
     = 9007199254740995
   \<and> getFolderWithStats ''F1''
       (example_world\<lparr>files := [local_row\<lparr>file_size := 9007199254740992\<rparr>,
                                local_row\<lparr>file_id := ''id3'', file_size := 3\<rparr>]\<rparr>)
     = Inr (docs_folder\<lparr>folder_fileCount := 2, folder_totalSize := 9007199254740996\<rparr>)"
proof -
  let ?w = "example_world\<lparr>files := [local_row\<lparr>file_size := 9007199254740992\<rparr>,
                                local_row\<lparr>file_id := ''id3'', file_size := 3\<rparr>]\<rparr>"
  have f: "FolderService_findById ''F1'' ?w = Inr docs_folder"
    by (simp add: FolderService_findById_def folder_findOne_def example_world_def docs_folder_def)
  have c: "countAndSum ''F1'' (files ?w) = (2, 9007199254740995)"
    by (simp add: countAndSum_def local_row_def)
  have s: "sum_list (map file_size
        (filter (\<lambda>f. file_folderId f = Some ''F1'' \<and> file_deletedAt f = None) (files ?w)))
     = 9007199254740995"
    by (simp add: local_row_def)
  have p: "parseInt 2 = 2" "parseInt 9007199254740995 = 9007199254740996"
    by (simp_all add: parseInt_def to_double_def bit_length_example Let_def)
  have g: "getFolderWithStats ''F1'' ?w
     = Inr (docs_folder\<lparr>folder_fileCount := 2, folder_totalSize := 9007199254740996\<rparr>)"
    unfolding getFolderWithStats_def by (simp only: f c) (simp add: p)
  show ?thesis by (intro conjI f s g)
qed

section \<open>Moving a folder below itself\<close>

lemma find_not_None: "x \<in> set xs \<Longrightarrow> P x \<Longrightarrow> find P xs \<noteq> None"
  by (induction xs) auto

lemma descendant_is_found:
  assumes "B \<in> set (map folder_id (findDescendants w a))"
  shows "\<exists>targetParent. FolderService_findById B w = Inr targetParent"
proof -
  from assms obtain row where "row \<in> set (folders w)" "folder_id row = B" "folder_deletedAt row = None"
    unfolding findDescendants_def by auto
  then have "find (\<lambda>f. folder_id f = B \<and> (False \<or> folder_deletedAt f = None)) (folders w) \<noteq> None"
    by (intro find_not_None [of row]) simp_all
  then show ?thesis
    by (simp add: FolderService_findById_def folder_findOne_def split: option.splits)
qed

lemma self_is_descendant:
  assumes "FolderService_findById A w = Inr a" and "(A, A) \<in> set (folders_closure w)"
  shows "A \<in> set (map folder_id (findDescendants w a))"
proof -
  from assms(1) have "folder_findOne False A w = Some a"
    by (simp add: FolderService_findById_def split: option.splits)
  from find_Some_D [OF this [unfolded folder_findOne_def]]
  have "a \<in> set (folders w)" "folder_id a = A" "folder_deletedAt a = None" by simp_all
  with assms(2) have "a \<in> set (findDescendants w a)"
    by (force simp: findDescendants_def)
  with \<open>folder_id a = A\<close> show ?thesis by force
qed

lemma move_cycle:
  assumes a: "FolderService_findById A w = Inr a"
    and b: "B \<noteq> []"
    and d: "B \<in> set (map folder_id (findDescendants w a))"
  shows "FolderService_move depth A (Some B) w =
           Some (Inl (Error ''Cannot move folder into itself or its descendants''), w)"
proof -
  from descendant_is_found [OF d] obtain tp where tp: "FolderService_findById B w = Inr tp" ..
  show ?thesis
    using a b d tp
    by (simp add: FolderService_move_def truthy_def or_else_def getAllDescendants_def)
qed

text \<open>
  Claim C5. Let \<open>findById\<close> find folder \<open>A\<close> (ids are UUIDs, never empty). If \<open>B\<close> is
  among the ids of \<open>A\<close>'s descendants, as \<open>getAllDescendants\<close> reads them from the closure
  table, then \<open>move(A, {targetParentId: B})\<close> throws the error
  \<open>Cannot move folder into itself or its descendants\<close> before anything is written: the
  whole state, parent pointers and paths included, is as before. \<open>A\<close> itself is such a
  \<open>B\<close>, by the reflexive pair of the closure table. The bound on the depth of the
  path update plays no part: the check comes first.
\<close>

theorem move_into_descendant_fails:
  assumes "FolderService_findById A w = Inr a" and "B \<noteq> []" and "A \<noteq> []"
  shows "(B \<in> set (map folder_id (findDescendants w a)) \<longrightarrow>
            FolderService_move depth A (Some B) w =
              Some (Inl (Error ''Cannot move folder into itself or its descendants''), w))
       \<and> ((A, A) \<in> set (folders_closure w) \<longrightarrow>
            FolderService_move depth A (Some A) w =
              Some (Inl (Error ''Cannot move folder into itself or its descendants''), w))"
  using assms move_cycle [of A w a B depth] move_cycle [of A w a A depth]
    self_is_descendant [of A w a]
  by blast

lemma findById_example:
  "FolderService_findById ''F1'' example_world = Inr docs_folder"
  "FolderService_findById ''F2'' example_world = Inr reports_folder"
  by (simp_all add: FolderService_findById_def folder_findOne_def example_world_def
      docs_folder_def reports_folder_def)

lemma findDescendants_example:
  "map folder_id (findDescendants example_world docs_folder) = [''F1'', ''F2'']"
  by (simp add: findDescendants_def example_world_def docs_folder_def reports_folder_def)

text \<open>
  On the example, Docs can be moved neither under its child Reports nor under itself.
\<close>

theorem move_into_descendant_fails_witness:
  "FolderService_findById ''F1'' example_world = Inr docs_folder
   \<and> ''F2'' \<in> set (map folder_id (findDescendants example_world docs_folder))
   \<and> (''F1'', ''F1'') \<in> set (folders_closure example_world)
   \<and> FolderService_move 5 ''F1'' (Some ''F2'') example_world =
        Some (Inl (Error ''Cannot move folder into itself or its descendants''), example_world)
   \<and> FolderService_move 5 ''F1'' (Some ''F1'') example_world =
        Some (Inl (Error ''Cannot move folder into itself or its descendants''), example_world)"
proof -
  have c: "(''F1'', ''F1'') \<in> set (folders_closure example_world)"
    by (simp add: example_world_def)
  show ?thesis
    using move_into_descendant_fails [OF findById_example(1), of "''F2''" 5] c
    by (simp add: findById_example findDescendants_example)
qed

section \<open>Upload\<close>

lemma strategy_upload_rows:
  "files (snd (strategy_upload strategy mf filename w)) = files w"
  "folders (snd (strategy_upload strategy mf filename w)) = folders w"
  by (cases strategy; simp add: case_prod_beta)+

lemma fileRepository_save_Inr:
  "fileRepository_save row w = Inr w' \<Longrightarrow> w' = w\<lparr>files := files w @ [row]\<rparr>"
  by (auto simp: fileRepository_save_def split: if_splits option.splits)

lemma fileRepository_save_Inl:
  "fileRepository_save row w = Inl m \<Longrightarrow>
     file_size row > bigint_max
     \<or> (\<exists>folderId. file_folderId row = Some folderId
           \<and> (folderId = [] \<or> folderId \<notin> set (map folder_id (folders w))))"
  by (auto simp: fileRepository_save_def is_uuid_def split: if_splits option.splits)

lemma fileRepository_save_empty_folderId:
  "file_folderId row = Some [] \<Longrightarrow> file_size row \<le> bigint_max \<Longrightarrow>
     fileRepository_save row w = Inl (invalid_uuid [])"
  by (simp add: fileRepository_save_def is_uuid_def)

lemma updateFolderStats_Inr:
  assumes "updateFolderStats F w = Inr w'"
  shows "files w' = files w" and "disk w' = disk w" and "object_store w' = object_store w"
    and "folders w' =
           map (\<lambda>f. if folder_id f = F
                     then f\<lparr>folder_fileCount := parseInt (fst (countAndSum F (files w))),
                            folder_totalSize := parseInt (snd (countAndSum F (files w)))\<rparr>
                     else f) (folders w)"
  using assms by (auto simp: updateFolderStats_def Let_def split: if_splits)

text \<open>The ways through the body of the \<open>try\<close>.\<close>

lemma uploadFile_try_no_folder:
  assumes "dto_folderId dto = Some folderId" and "folderId \<noteq> []"
    and "folder_findOne False folderId w = None"
  shows "FileService_uploadFile_try sf g n mf dto w = (Inl (FolderNotFoundException folderId), w)"
  using assms by (simp add: FileService_uploadFile_try_def)

lemma uploadFile_try_no_strategy:
  assumes "folder_check_passes dto w"
    and "getStrategy sf (case dto_storageType dto of None \<Rightarrow> LOCAL | Some t \<Rightarrow> t) = Inl e"
  shows "FileService_uploadFile_try sf g n mf dto w = (Inl e, w)"
  using assms
  by (auto simp: FileService_uploadFile_try_def folder_check_passes_def split: option.splits)

lemma uploadFile_try_write_fails:
  assumes "folder_check_passes dto w"
    and "getStrategy sf (case dto_storageType dto of None \<Rightarrow> LOCAL | Some t \<Rightarrow> t) = Inr strategy"
    and "strategy_upload strategy mf (or_else (dto_filename dto) g) w = (Inl m, w1)"
  shows "FileService_uploadFile_try sf g n mf dto w = (Inl (Error m), w1)"
  using assms
  by (auto simp: FileService_uploadFile_try_def folder_check_passes_def split: option.splits)

lemma uploadFile_try_written:
  assumes "folder_check_passes dto w"
    and "getStrategy sf (case dto_storageType dto of None \<Rightarrow> LOCAL | Some t \<Rightarrow> t) = Inr strategy"
    and "strategy_upload strategy mf (or_else (dto_filename dto) g) w = (Inr r, w1)"
  shows "FileService_uploadFile_try sf g n mf dto w =
     (case fileRepository_save
             (fileRepository_create n (or_else (dto_filename dto) g) mf dto
                (case dto_storageType dto of None \<Rightarrow> LOCAL | Some t \<Rightarrow> t) r) w1 of
        Inl m \<Rightarrow> (Inl (QueryFailedError m), w1)
      | Inr w2 \<Rightarrow>
          if truthy (dto_folderId dto)
          then (case updateFolderStats (or_else (dto_folderId dto) []) w2 of
                  Inl m \<Rightarrow> (Inl (QueryFailedError m), w2)
                | Inr w3 \<Rightarrow>
                    (Inr (fileRepository_create n (or_else (dto_filename dto) g) mf dto
                            (case dto_storageType dto of None \<Rightarrow> LOCAL | Some t \<Rightarrow> t) r), w3))
          else (Inr (fileRepository_create n (or_else (dto_filename dto) g) mf dto
                       (case dto_storageType dto of None \<Rightarrow> LOCAL | Some t \<Rightarrow> t) r), w2))"
  using assms
  by (auto simp: FileService_uploadFile_try_def folder_check_passes_def Let_def
      split: option.splits)

lemma uploadFile_try_stored:
  assumes "folder_check_passes dto w"
    and "getStrategy sf (case dto_storageType dto of None \<Rightarrow> LOCAL | Some t \<Rightarrow> t) = Inr strategy"
    and "strategy_upload strategy mf (or_else (dto_filename dto) g) w = (Inr r, w1)"
    and "FileService_uploadFile_try sf g n mf dto w = (Inr f, w')"
  shows "files w' = files w @ [f]
       \<and> f = fileRepository_create n (or_else (dto_filename dto) g) mf dto
               (case dto_storageType dto of None \<Rightarrow> LOCAL | Some t \<Rightarrow> t) r"
proof -
  define E where "E = fileRepository_create n (or_else (dto_filename dto) g) mf dto
               (case dto_storageType dto of None \<Rightarrow> LOCAL | Some t \<Rightarrow> t) r"
  have w1: "files w1 = files w"
    using strategy_upload_rows(1) [of strategy mf "or_else (dto_filename dto) g" w] assms(3)
    by simp
  note t = uploadFile_try_written [OF assms(1-3), of n, folded E_def]
  show ?thesis
  proof (cases "fileRepository_save E w1")
    case (Inl m)
    with t assms(4) show ?thesis by simp
  next
    case (Inr w2)
    from fileRepository_save_Inr [OF Inr] w1 have w2: "files w2 = files w @ [E]" by simp
    show ?thesis
    proof (cases "truthy (dto_folderId dto)")
      case False
      with t Inr assms(4) have "f = E" "w' = w2" by simp_all
      with w2 show ?thesis by (simp add: E_def)
    next
      case True
      show ?thesis
      proof (cases "updateFolderStats (or_else (dto_folderId dto) []) w2")
        case i: (Inl m)
        with t Inr True assms(4) show ?thesis by simp
      next
        case s: (Inr w3)
        with t Inr True assms(4) have "f = E" "w' = w3" by simp_all
        with updateFolderStats_Inr(1) [OF s] w2 show ?thesis by (simp add: E_def)
      qed
    qed
  qed
qed

lemma uploadFile_try_cases:
  obtains (no_folder) folderId where "dto_folderId dto = Some folderId" "folderId \<noteq> []"
      "folder_findOne False folderId w = None"
  | (no_strategy) e where "folder_check_passes dto w"
      "getStrategy sf (case dto_storageType dto of None \<Rightarrow> LOCAL | Some t \<Rightarrow> t) = Inl e"
  | (write_fails) strategy m w1 where "folder_check_passes dto w"
      "getStrategy sf (case dto_storageType dto of None \<Rightarrow> LOCAL | Some t \<Rightarrow> t) = Inr strategy"
      "strategy_upload strategy mf (or_else (dto_filename dto) g) w = (Inl m, w1)"
  | (written) strategy r w1 where "folder_check_passes dto w"
      "getStrategy sf (case dto_storageType dto of None \<Rightarrow> LOCAL | Some t \<Rightarrow> t) = Inr strategy"
      "strategy_upload strategy mf (or_else (dto_filename dto) g) w = (Inr r, w1)"
proof (cases "folder_check_passes dto w")
  case False
  then obtain folderId where "dto_folderId dto = Some folderId" "folderId \<noteq> []"
      "folder_findOne False folderId w = None"
    by (auto simp: folder_check_passes_def split: option.splits)
  then show ?thesis by (rule no_folder)
next
  case True
  show ?thesis
  proof (cases "getStrategy sf (case dto_storageType dto of None \<Rightarrow> LOCAL | Some t \<Rightarrow> t)")
    case (Inl e)
    with True show ?thesis by (rule no_strategy)
  next
    case (Inr strategy)
    obtain res w1 where u: "strategy_upload strategy mf (or_else (dto_filename dto) g) w = (res, w1)"
      by (cases "strategy_upload strategy mf (or_else (dto_filename dto) g) w")
    show ?thesis
    proof (cases res)
      case (Inl m)
      with True Inr u show ?thesis by (intro write_fails) simp_all
    next
      case r: (Inr r)
      with True Inr u show ?thesis by (intro written) simp_all
    qed
  qed
qed

lemma uploadFile_wraps:
  "FileService_uploadFile_try sf g n mf dto w = (Inl e, w') \<Longrightarrow>
     FileService_uploadFile sf g n mf dto w
       = (Inl (StorageOperationException ''upload'' (error_message e)), w')"
  "FileService_uploadFile_try sf g n mf dto w = (Inr f, w') \<Longrightarrow>
     FileService_uploadFile sf g n mf dto w = (Inr f, w')"
  by (simp_all add: FileService_uploadFile_def)

lemma uploadFile_Inr_try:
  "FileService_uploadFile sf g n mf dto w = (Inr f, w') \<Longrightarrow>
     FileService_uploadFile_try sf g n mf dto w = (Inr f, w')"
  by (auto simp: FileService_uploadFile_def split: prod.splits sum.splits)

lemma uploadFile_success_was_written:
  assumes "FileService_uploadFile sf g n mf dto w = (Inr f, w')"
  shows "\<exists>strategy r w1.
           getStrategy sf (case dto_storageType dto of None \<Rightarrow> LOCAL | Some t \<Rightarrow> t) = Inr strategy
         \<and> strategy_upload strategy mf (or_else (dto_filename dto) g) w = (Inr r, w1)
         \<and> files w' = files w @ [f] \<and> file_path f = result_path r \<and> file_size f = result_size r
         \<and> file_storageType f = (case dto_storageType dto of None \<Rightarrow> LOCAL | Some t \<Rightarrow> t)"
proof (cases rule: uploadFile_try_cases [where dto=dto and w=w and sf=sf and mf=mf and g=g])
  case (no_folder folderId)
  from uploadFile_wraps(1) [OF uploadFile_try_no_folder [OF no_folder]] assms
  show ?thesis by simp
next
  case (no_strategy e)
  from uploadFile_wraps(1) [OF uploadFile_try_no_strategy [OF no_strategy]] assms
  show ?thesis by simp
next
  case (write_fails strategy m w1)
  from uploadFile_wraps(1) [OF uploadFile_try_write_fails [OF write_fails]] assms
  show ?thesis by simp
next
  case (written strategy r w1)
  from uploadFile_try_stored [OF written uploadFile_Inr_try [OF assms]]
  have p: "files w' = files w @ [f]"
    "f = fileRepository_create n (or_else (dto_filename dto) g) mf dto
               (case dto_storageType dto of None \<Rightarrow> LOCAL | Some t \<Rightarrow> t) r"
    by simp_all
  from p(2) have "file_path f = result_path r" "file_size f = result_size r"
    "file_storageType f = (case dto_storageType dto of None \<Rightarrow> LOCAL | Some t \<Rightarrow> t)"
    by (simp_all add: fileRepository_create_def)
  with p(1) written(2,3) show ?thesis by blast
qed

text \<open>
  What the head of \<open>uploadFile\<close> does guard. (1) A request that names a non-empty folder
  id which \<open>findOne\<close> does not find fails with the folder's not-found message, and the
  state is untouched: no row, no byte written. (2) When the folder check passes, the
  strategy is resolved and its \<open>upload\<close> throws, the request fails with that message and
  the table of files is as before. (3) When the request succeeds, the strategy's
  \<open>upload\<close> had returned a result, and the table has grown by exactly the returned row,
  which carries the path and size of that result.
\<close>

lemma uploadFile_row_only_after_write:
  "(dto_folderId dto = Some folderId \<and> folderId \<noteq> [] \<and> folder_findOne False folderId w = None \<longrightarrow>
      FileService_uploadFile sf g n mf dto w
        = (Inl (StorageOperationException ''upload'' (''Folder with ID '' @ folderId @ '' not found'')), w))
   \<and> (folder_check_passes dto w
        \<and> getStrategy sf (case dto_storageType dto of None \<Rightarrow> LOCAL | Some t \<Rightarrow> t) = Inr strategy
        \<and> strategy_upload strategy mf (or_else (dto_filename dto) g) w = (Inl m, w1) \<longrightarrow>
      FileService_uploadFile sf g n mf dto w = (Inl (StorageOperationException ''upload'' m), w1)
      \<and> files w1 = files w)
   \<and> (FileService_uploadFile sf g n mf dto w = (Inr f, w') \<longrightarrow>
      (\<exists>strategy r w1.
           getStrategy sf (case dto_storageType dto of None \<Rightarrow> LOCAL | Some t \<Rightarrow> t) = Inr strategy
         \<and> strategy_upload strategy mf (or_else (dto_filename dto) g) w = (Inr r, w1)
         \<and> files w' = files w @ [f] \<and> file_path f = result_path r \<and> file_size f = result_size r))"
proof (intro conjI impI)
  assume "dto_folderId dto = Some folderId \<and> folderId \<noteq> [] \<and> folder_findOne False folderId w = None"
  then have "FileService_uploadFile_try sf g n mf dto w = (Inl (FolderNotFoundException folderId), w)"
    by (intro uploadFile_try_no_folder) simp_all
  from uploadFile_wraps(1) [OF this]
  show "FileService_uploadFile sf g n mf dto w
        = (Inl (StorageOperationException ''upload'' (''Folder with ID '' @ folderId @ '' not found'')), w)"
    by simp
next
  assume h: "folder_check_passes dto w
        \<and> getStrategy sf (case dto_storageType dto of None \<Rightarrow> LOCAL | Some t \<Rightarrow> t) = Inr strategy
        \<and> strategy_upload strategy mf (or_else (dto_filename dto) g) w = (Inl m, w1)"
  then have "FileService_uploadFile_try sf g n mf dto w = (Inl (Error m), w1)"
    by (intro uploadFile_try_write_fails [of dto w sf strategy]) simp_all
  from uploadFile_wraps(1) [OF this]
  show "FileService_uploadFile sf g n mf dto w = (Inl (StorageOperationException ''upload'' m), w1)"
    by simp
  show "files w1 = files w"
    using strategy_upload_rows(1) [of strategy mf "or_else (dto_filename dto) g" w] h by simp
next
  assume "FileService_uploadFile sf g n mf dto w = (Inr f, w')"
  from uploadFile_success_was_written [OF this]
  show "\<exists>strategy r w1.
           getStrategy sf (case dto_storageType dto of None \<Rightarrow> LOCAL | Some t \<Rightarrow> t) = Inr strategy
         \<and> strategy_upload strategy mf (or_else (dto_filename dto) g) w = (Inr r, w1)
         \<and> files w' = files w @ [f] \<and> file_path f = result_path r \<and> file_size f = result_size r"
    by blast
qed

text \<open>
  What it does not guard: the empty string. \<open>if (uploadDto.folderId)\<close> skips the check for
  it, so whenever the strategy is registered and its \<open>upload\<close> returns, the bytes are
  stored; the INSERT that follows is refused, because the empty string is not a uuid, and
  the request fails in the state the write has left. This holds for every strategy and
  every state.
\<close>

lemma uploadFile_empty_folderId:
  assumes "dto_folderId dto = Some []"
    and "getStrategy sf (case dto_storageType dto of None \<Rightarrow> LOCAL | Some t \<Rightarrow> t) = Inr strategy"
    and "strategy_upload strategy mf (or_else (dto_filename dto) g) w = (Inr r, w1)"
    and "result_size r \<le> bigint_max"
  shows "FileService_uploadFile sf g n mf dto w
           = (Inl (StorageOperationException ''upload'' (invalid_uuid [])), w1)"
proof -
  have c: "folder_check_passes dto w"
    using assms(1) by (simp add: folder_check_passes_def)
  have "fileRepository_save
          (fileRepository_create n (or_else (dto_filename dto) g) mf dto
             (case dto_storageType dto of None \<Rightarrow> LOCAL | Some t \<Rightarrow> t) r) w1
        = Inl (invalid_uuid [])"
    using assms(1,4) by (intro fileRepository_save_empty_folderId)
      (simp_all add: fileRepository_create_def)
  with uploadFile_try_written [OF c assms(2,3), of n]
  have "FileService_uploadFile_try sf g n mf dto w = (Inl (QueryFailedError (invalid_uuid [])), w1)"
    by simp
  from uploadFile_wraps(1) [OF this] show ?thesis by simp
qed

text \<open>
  A refusal after the INSERT: when the recomputed counters do not fit their columns, the
  request fails although the row is stored.
\<close>

lemma uploadFile_stats_refused:
  assumes "folder_check_passes dto w" and "truthy (dto_folderId dto)"
    and "getStrategy sf (case dto_storageType dto of None \<Rightarrow> LOCAL | Some t \<Rightarrow> t) = Inr strategy"
    and "strategy_upload strategy mf (or_else (dto_filename dto) g) w = (Inr r, w1)"
    and "fileRepository_save
          (fileRepository_create n (or_else (dto_filename dto) g) mf dto
             (case dto_storageType dto of None \<Rightarrow> LOCAL | Some t \<Rightarrow> t) r) w1 = Inr w2"
    and "updateFolderStats (or_else (dto_folderId dto) []) w2 = Inl m"
  shows "FileService_uploadFile sf g n mf dto w = (Inl (StorageOperationException ''upload'' m), w2)
       \<and> files w2 = files w @ [fileRepository_create n (or_else (dto_filename dto) g) mf dto
             (case dto_storageType dto of None \<Rightarrow> LOCAL | Some t \<Rightarrow> t) r]"
proof -
  from uploadFile_try_written [OF assms(1,3,4), of n] assms(2,5,6)
  have "FileService_uploadFile_try sf g n mf dto w = (Inl (QueryFailedError m), w2)"
    by simp
  from uploadFile_wraps(1) [OF this]
  have a: "FileService_uploadFile sf g n mf dto w = (Inl (StorageOperationException ''upload'' m), w2)"
    by simp
  have "files w1 = files w"
    using strategy_upload_rows(1) [of strategy mf "or_else (dto_filename dto) g" w] assms(4)
    by simp
  with fileRepository_save_Inr [OF assms(5)] a show ?thesis by simp
qed

lemma getStrategy_example:
  "getStrategy both_factory LOCAL = Inr (LocalStorageStrategy local_config)"
  "getStrategy both_factory AWS_S3 = Inr (AWSS3Strategy media_config)"
  "map_of s3_factory LOCAL = None"
  "getDefaultStrategy s3_factory = Inr (AWSS3Strategy media_config)"
  by (simp_all add: getStrategy_def getDefaultStrategy_def both_factory_def s3_factory_def
      initializeStrategies_def)

lemma local_upload_example:
  "LocalStorageStrategy_upload local_config hello_file ''gen.txt'' d
     = (if ''uploads/gen.txt'' \<in> set (fs_denied d)
        then (Inl (''EACCES: permission denied, open '' @ [CHR 0x27] @ ''uploads/gen.txt''
                   @ [CHR 0x27]), d)
        else (Inr \<lparr>result_path = ''uploads/gen.txt'', result_key = None, result_bucket = None,
                   result_size = 5, result_mimetype = ''text/plain''\<rparr>,
              d\<lparr>fs_files := (''uploads/gen.txt'', ''hello'')
                     # filter (\<lambda>e. fst e \<noteq> ''uploads/gen.txt'') (fs_files d)\<rparr>))"
  by (simp add: LocalStorageStrategy_upload_def getFullPath_def path_join_eval local_config_def
      hello_file_def writeFile_def stat_size_def Let_def eval_nat_numeral)

lemma hello_file_fields:
  "originalname hello_file = ''a.txt''" "mimetype hello_file = ''text/plain''"
  "buffer hello_file = ''hello''"
  by (simp_all add: hello_file_def)

lemma upload_eval_missing_folder:
  "FileService_uploadFile both_factory ''gen.txt'' ''id9'' hello_file
       (plain_dto\<lparr>dto_folderId := Some ''F9''\<rparr>) example_world
     = (Inl (StorageOperationException ''upload'' ''Folder with ID F9 not found''), example_world)"
  by (simp add: FileService_uploadFile_def FileService_uploadFile_try_def folder_findOne_def
      plain_dto_def example_world_def docs_folder_def reports_folder_def)

lemma upload_eval_denied:
  "FileService_uploadFile both_factory ''gen.txt'' ''id9'' hello_file plain_dto
       (empty_world\<lparr>disk := \<lparr>fs_files = [], fs_denied = [''uploads/gen.txt'']\<rparr>\<rparr>)
     = (Inl (StorageOperationException ''upload''
               (''EACCES: permission denied, open '' @ [CHR 0x27] @ ''uploads/gen.txt''
                @ [CHR 0x27])),
        empty_world\<lparr>disk := \<lparr>fs_files = [], fs_denied = [''uploads/gen.txt'']\<rparr>\<rparr>)"
  by (simp add: FileService_uploadFile_def FileService_uploadFile_try_def getStrategy_example
      local_upload_example plain_dto_def or_else_def Let_def empty_world_def)


lemma upload_eval_empty_folderId:
  "FileService_uploadFile both_factory ''gen.txt'' ''id9'' hello_file
       (plain_dto\<lparr>dto_folderId := Some []\<rparr>) empty_world
     = (Inl (StorageOperationException ''upload''
               (''invalid input syntax for type uuid: '' @ [CHR 0x22, CHR 0x22])),
        empty_world\<lparr>disk := \<lparr>fs_files = [(''uploads/gen.txt'', ''hello'')], fs_denied = []\<rparr>\<rparr>)"
  by (simp add: FileService_uploadFile_def FileService_uploadFile_try_def getStrategy_example
      local_upload_example plain_dto_def or_else_def truthy_def empty_world_def
      hello_file_fields Let_def fileRepository_create_def fileRepository_save_def
      bigint_max_def is_uuid_def invalid_uuid_def)


text \<open>
  Claim C4 says that for a folder id that is not null and references no folder, no byte
  write is attempted. The code attempts it for the empty string. On an installation with
  no folder at all and an empty disk, a request with \<open>folderId: ''\<close> passes the check
  \<open>if (uploadDto.folderId)\<close> unvalidated, the local strategy writes \<open>uploads/gen.txt\<close>,
  the INSERT is refused (the empty string is not a uuid), and the request fails with the
  database's message: no row is stored, and the bytes stay on disk.
\<close>

theorem upload_empty_folderId_writes_bytes:
  "dto_folderId (plain_dto\<lparr>dto_folderId := Some []\<rparr>) = Some []
   \<and> folders empty_world = []
   \<and> fs_files (disk empty_world) = []
   \<and> FileService_uploadFile both_factory ''gen.txt'' ''id9'' hello_file
         (plain_dto\<lparr>dto_folderId := Some []\<rparr>) empty_world
       = (Inl (StorageOperationException ''upload''
                 (''invalid input syntax for type uuid: '' @ [CHR 0x22, CHR 0x22])),
          empty_world\<lparr>disk := \<lparr>fs_files = [(''uploads/gen.txt'', ''hello'')], fs_denied = []\<rparr>\<rparr>)
   \<and> files (snd (FileService_uploadFile both_factory ''gen.txt'' ''id9'' hello_file
                    (plain_dto\<lparr>dto_folderId := Some []\<rparr>) empty_world)) = []
   \<and> fs_files (disk (snd (FileService_uploadFile both_factory ''gen.txt'' ''id9'' hello_file
                             (plain_dto\<lparr>dto_folderId := Some []\<rparr>) empty_world)))
       = [(''uploads/gen.txt'', ''hello'')]"
proof -
  have a: "files (snd (FileService_uploadFile both_factory ''gen.txt'' ''id9'' hello_file
                    (plain_dto\<lparr>dto_folderId := Some []\<rparr>) empty_world)) = []"
    by (simp add: upload_eval_empty_folderId) (simp add: empty_world_def)
  have b: "fs_files (disk (snd (FileService_uploadFile both_factory ''gen.txt'' ''id9'' hello_file
                             (plain_dto\<lparr>dto_folderId := Some []\<rparr>) empty_world)))
       = [(''uploads/gen.txt'', ''hello'')]"
    by (simp add: upload_eval_empty_folderId)
  have c: "dto_folderId (plain_dto\<lparr>dto_folderId := Some []\<rparr>) = Some []"
    "folders empty_world = []" "fs_files (disk empty_world) = []"
    by (simp_all add: empty_world_def)
  show ?thesis
    by (intro conjI c a b upload_eval_empty_folderId)
qed






section \<open>Hard delete of a file\<close>

lemma hardDelete_eval_local:
  "FileService_hardDelete both_factory ''id1'' example_world
     = (Inr (), example_world\<lparr>files := [s3_row],
                 folders := [docs_folder\<lparr>folder_fileCount := 0, folder_totalSize := 0\<rparr>,
                             reports_folder]\<rparr>)"
  by (simp add: FileService_hardDelete_def file_findOne_def getStrategy_example
      LocalStorageStrategy_delete_def existsSync_def getFullPath_def path_join_eval
      or_else_def truthy_def updateFolderStats_def countAndSum_def parseInt_def
      int_max_def bigint_max_def Let_def
      example_world_def local_row_def s3_row_def docs_folder_def reports_folder_def
      local_config_def)

lemma hardDelete_eval_s3:
  "FileService_hardDelete both_factory ''id2'' example_world
     = (Inr (), example_world\<lparr>files := [local_row],
                 folders := [docs_folder,
                             reports_folder\<lparr>folder_fileCount := 0, folder_totalSize := 0\<rparr>]\<rparr>)"
  by (simp add: FileService_hardDelete_def file_findOne_def getStrategy_example
      AWSS3Strategy_delete_def s3_send_def
      or_else_def truthy_def updateFolderStats_def countAndSum_def parseInt_def
      int_max_def bigint_max_def Let_def
      example_world_def local_row_def s3_row_def docs_folder_def reports_folder_def
      media_config_def)

text \<open>
  Claim C1 says the row stays when the backend delete fails. The code removes it. On the
  example installation: the local file's row holds the full path \<open>uploads/a.txt\<close> and
  no storage key (as \<open>uploadFile\<close> stores it); \<open>hardDelete\<close> passes that path to
  \<open>delete\<close>, which joins it to the upload directory once more, finds nothing under
  \<open>uploads/uploads/a.txt\<close> and answers \<open>{success: false}\<close>; the row is removed, the file
  stays on disk. The bucket refuses the delete of \<open>b.txt\<close>; \<open>delete\<close> answers
  \<open>{success: false, message: 'Access Denied'}\<close>; the row is removed, the object stays.
\<close>

theorem hardDelete_removes_row_after_failed_delete:
  "fst (strategy_delete (LocalStorageStrategy local_config) ''uploads/a.txt'' example_world)
     = \<lparr>success = False, message = Some ''File not found''\<rparr>
   \<and> FileService_hardDelete both_factory ''id1'' example_world
     = (Inr (), example_world\<lparr>files := [s3_row],
                 folders := [docs_folder\<lparr>folder_fileCount := 0, folder_totalSize := 0\<rparr>,
                             reports_folder]\<rparr>)
   \<and> fs_files (disk (snd (FileService_hardDelete both_factory ''id1'' example_world)))
     = [(''uploads/a.txt'', ''hello'')]
   \<and> fst (strategy_delete (AWSS3Strategy media_config) ''b.txt'' example_world)
     = \<lparr>success = False, message = Some ''Access Denied''\<rparr>
   \<and> FileService_hardDelete both_factory ''id2'' example_world
     = (Inr (), example_world\<lparr>files := [local_row],
                 folders := [docs_folder,
                             reports_folder\<lparr>folder_fileCount := 0, folder_totalSize := 0\<rparr>]\<rparr>)
   \<and> s3_objects (object_store (snd (FileService_hardDelete both_factory ''id2'' example_world)))
     = [((''media'', ''b.txt''), ''abc'')]"
proof -
  have a: "fst (strategy_delete (LocalStorageStrategy local_config) ''uploads/a.txt'' example_world)
     = \<lparr>success = False, message = Some ''File not found''\<rparr>"
    by (simp add: LocalStorageStrategy_delete_def existsSync_def getFullPath_def path_join_eval
        example_world_def local_config_def)
  have b: "fst (strategy_delete (AWSS3Strategy media_config) ''b.txt'' example_world)
     = \<lparr>success = False, message = Some ''Access Denied''\<rparr>"
    by (simp add: AWSS3Strategy_delete_def s3_send_def example_world_def media_config_def)
  have c: "fs_files (disk (snd (FileService_hardDelete both_factory ''id1'' example_world)))
     = [(''uploads/a.txt'', ''hello'')]"
    by (simp add: hardDelete_eval_local) (simp add: example_world_def)
  have d: "s3_objects (object_store (snd (FileService_hardDelete both_factory ''id2'' example_world)))
     = [((''media'', ''b.txt''), ''abc'')]"
    by (simp add: hardDelete_eval_s3) (simp add: example_world_def)
  show ?thesis
    by (intro conjI a b c d hardDelete_eval_local hardDelete_eval_s3)
qed

section \<open>The cached folder statistics\<close>

text \<open>
  Claim C2 says the cached counters follow every change of a file's deletion state. On
  the example the counters are right to begin with (Docs 1 file, 5 bytes; Reports 1 file,
  3 bytes). After the file service soft-deletes the file of Docs, and after the folder
  service soft-deletes Reports with its file, the stored counters are what they were,
  while the live query finds no file.
\<close>

theorem softDelete_leaves_folder_stats_stale:
  "map folder_fileCount (folders example_world) = [1, 1]
   \<and> map folder_totalSize (folders example_world) = [5, 3]
   \<and> countAndSum ''F1'' (files example_world) = (1, 5)
   \<and> countAndSum ''F2'' (files example_world) = (1, 3)
   \<and> isl (fst (FileService_softDelete 7 ''id1'' None example_world)) = False
   \<and> folders (snd (FileService_softDelete 7 ''id1'' None example_world)) = folders example_world
   \<and> countAndSum ''F1'' (files (snd (FileService_softDelete 7 ''id1'' None example_world))) = (0, 0)
   \<and> isl (fst (FolderService_softDelete 7 ''F2'' None example_world)) = False
   \<and> map folder_fileCount (folders (snd (FolderService_softDelete 7 ''F2'' None example_world))) = [1, 1]
   \<and> map folder_totalSize (folders (snd (FolderService_softDelete 7 ''F2'' None example_world))) = [5, 3]
   \<and> countAndSum ''F2'' (files (snd (FolderService_softDelete 7 ''F2'' None example_world))) = (0, 0)"
  by (simp add: FileService_softDelete_def FileService_findById_def file_findOne_def
      file_softDelete_def FolderService_softDelete_def FolderService_findById_def
      folder_findOne_def truthy_def countAndSum_def
      example_world_def local_row_def s3_row_def docs_folder_def reports_folder_def)

lemma strategy_delete_rows:
  "files (snd (strategy_delete strategy p w)) = files w"
  "folders (snd (strategy_delete strategy p w)) = folders w"
  by (cases strategy; simp add: case_prod_beta)+

lemma updateFolderStats_refreshes:
  assumes "updateFolderStats F w = Inr w'" and "row \<in> set (folders w')" and "folder_id row = F"
  shows "folder_fileCount row = parseInt (fst (countAndSum F (files w)))
       \<and> folder_totalSize row = parseInt (snd (countAndSum F (files w)))"
proof -
  from assms(2) updateFolderStats_Inr(4) [OF assms(1)] obtain old where "old \<in> set (folders w)"
    and "row = (if folder_id old = F
                then old\<lparr>folder_fileCount := parseInt (fst (countAndSum F (files w))),
                         folder_totalSize := parseInt (snd (countAndSum F (files w)))\<rparr>
                else old)"
    by auto
  with assms(3) show ?thesis by (cases "folder_id old = F") simp_all
qed

text \<open>
  The row of a file that \<open>hardDelete\<close> finds is removed whenever the file's strategy is
  registered, whatever \<open>strategy.delete\<close> answers: the answer is not read.
\<close>

lemma hardDelete_ignores_answer:
  assumes "file_findOne True fileId w = Some file"
    and "getStrategy sf (file_storageType file) = Inr strategy"
  shows "files (snd (FileService_hardDelete sf fileId w))
           = filter (\<lambda>f. file_id f \<noteq> file_id file) (files w)"
proof -
  define w1 where "w1 = snd (strategy_delete strategy (or_else (file_storageKey file) (file_path file)) w)"
  define w2 where "w2 = w1\<lparr>files := filter (\<lambda>f. file_id f \<noteq> file_id file) (files w1)\<rparr>"
  have f1: "files w1 = files w"
    unfolding w1_def by (rule strategy_delete_rows(1))
  have r: "FileService_hardDelete sf fileId w =
      (if truthy (file_folderId file)
       then (case updateFolderStats (or_else (file_folderId file) []) w2 of
               Inl m \<Rightarrow> (Inl (StorageOperationException ''hard delete'' m), w2)
             | Inr w3 \<Rightarrow> (Inr (), w3))
       else (Inr (), w2))"
    using assms unfolding w1_def w2_def
    by (simp add: FileService_hardDelete_def case_prod_beta Let_def)
  have f2: "files w2 = filter (\<lambda>f. file_id f \<noteq> file_id file) (files w)"
    by (simp add: w2_def f1)
  show ?thesis
  proof (cases "truthy (file_folderId file)")
    case False
    with r f2 show ?thesis by simp
  next
    case True
    show ?thesis
    proof (cases "updateFolderStats (or_else (file_folderId file) []) w2")
      case (Inl m)
      with r True f2 show ?thesis by simp
    next
      case (Inr w3)
      with r True f2 updateFolderStats_Inr(1) [OF Inr] show ?thesis by simp
    qed
  qed
qed

text \<open>
  Where the services do recompute: after a hard delete of a file of a folder that
  returns, the folder's stored counters are the query's result on the new table of files.
\<close>

lemma hardDelete_refreshes_stats:
  assumes "file_findOne True fileId w = Some file"
    and "getStrategy sf (file_storageType file) = Inr strategy"
    and "file_folderId file = Some F" and "F \<noteq> []"
    and "FileService_hardDelete sf fileId w = (Inr (), w')"
    and "row \<in> set (folders w')" and "folder_id row = F"
  shows "folder_fileCount row = parseInt (fst (countAndSum F (files w')))
       \<and> folder_totalSize row = parseInt (snd (countAndSum F (files w')))"
proof -
  define w1 where "w1 = snd (strategy_delete strategy (or_else (file_storageKey file) (file_path file)) w)"
  define w2 where "w2 = w1\<lparr>files := filter (\<lambda>f. file_id f \<noteq> file_id file) (files w1)\<rparr>"
  have t: "truthy (file_folderId file)" "or_else (file_folderId file) [] = F"
    using assms(3,4) by (simp_all add: truthy_def or_else_def)
  have r: "FileService_hardDelete sf fileId w =
      (case updateFolderStats F w2 of
         Inl m \<Rightarrow> (Inl (StorageOperationException ''hard delete'' m), w2)
       | Inr w3 \<Rightarrow> (Inr (), w3))"
    using assms(1,2) t unfolding w1_def w2_def
    by (simp add: FileService_hardDelete_def case_prod_beta Let_def)
  from r assms(5) have u: "updateFolderStats F w2 = Inr w'"
    by (cases "updateFolderStats F w2") simp_all
  from updateFolderStats_refreshes [OF u assms(6,7)] updateFolderStats_Inr(1) [OF u]
  show ?thesis by simp
qed

section \<open>Hard delete of a folder\<close>

lemma forEach_backend:
  assumes "\<And>x v r v'. body x v = Some (r, v') \<Longrightarrow> disk v' = disk v \<and> object_store v' = object_store v"
  shows "forEach body xs w = Some (r, w') \<Longrightarrow> disk w' = disk w \<and> object_store w' = object_store w"
proof (induction xs arbitrary: w)
  case Nil
  then show ?case by simp
next
  case (Cons x xs)
  show ?case
  proof (cases "body x w")
    case None
    with Cons.prems show ?thesis by simp
  next
    case (Some p)
    obtain r1 w1 where p: "p = (r1, w1)" by (cases p)
    from assms [OF Some [unfolded p]] have k: "disk w1 = disk w \<and> object_store w1 = object_store w" .
    show ?thesis
    proof (cases r1)
      case (Inl e)
      with Some p Cons.prems k show ?thesis by simp
    next
      case (Inr u)
      with Some p Cons.prems have "forEach body xs w1 = Some (r, w')" by simp
      from Cons.IH [OF this] k show ?thesis by simp
    qed
  qed
qed

text \<open>
  The folder service has no access to the storage strategies. Whatever \<open>hardDelete\<close> of a
  folder does, forced or not, at any depth of the tree, when it returns or throws the
  disk and the object store are as before.
\<close>

lemma folder_hardDelete_backend:
  "FolderService_hardDelete depth F force w = Some (r, w') \<Longrightarrow>
     disk w' = disk w \<and> object_store w' = object_store w"
proof (induction depth arbitrary: F force w r w')
  case 0
  then show ?case by simp
next
  case (Suc depth)
  show ?case
  proof (cases "folder_findOne True F w")
    case None
    with Suc.prems show ?thesis by auto
  next
    case (Some folder)
    define w1 where "w1 = (if force \<and> length (filter (\<lambda>f. file_folderId f = Some F) (files w)) > 0
                           then w\<lparr>files := filter (\<lambda>f. file_folderId f \<noteq> Some F) (files w)\<rparr>
                           else w)"
    define children where "children = filter (\<lambda>f. folder_parentId f = Some F) (folders w1)"
    define loop where "loop = (if force \<and> length children > 0
                             then forEach (\<lambda>child w'. FolderService_hardDelete depth (folder_id child) True w')
                                    children w1
                             else Some (Inr (), w1))"
    have k1: "disk w1 = disk w \<and> object_store w1 = object_store w"
      by (simp add: w1_def)
    have body: "\<And>x v r v'. FolderService_hardDelete depth (folder_id x) True v = Some (r, v') \<Longrightarrow>
        disk v' = disk v \<and> object_store v' = object_store v"
      by (rule Suc.IH)
    have kl: "\<And>r2 w2. loop = Some (r2, w2) \<Longrightarrow> disk w2 = disk w \<and> object_store w2 = object_store w"
    proof -
      fix r2 w2 assume l: "loop = Some (r2, w2)"
      show "disk w2 = disk w \<and> object_store w2 = object_store w"
      proof (cases "force \<and> length children > 0")
        case True
        with l have "forEach (\<lambda>child w'. FolderService_hardDelete depth (folder_id child) True w')
                       children w1 = Some (r2, w2)"
          by (simp add: loop_def)
        from forEach_backend [of "\<lambda>child w'. FolderService_hardDelete depth (folder_id child) True w'",
            OF body this] k1
        show ?thesis by simp
      next
        case False
        with l k1 show ?thesis by (auto simp: loop_def split: if_splits)
      qed
    qed
    have u: "FolderService_hardDelete (Suc depth) F force w =
       (if length (filter (\<lambda>f. file_folderId f = Some F) (files w)) > 0 \<and> \<not> force
        then Some (Inl (FolderNotEmptyException F), w)
        else if length children > 0 \<and> \<not> force then Some (Inl (FolderNotEmptyException F), w1)
        else (case loop of
                None \<Rightarrow> None
              | Some (Inl e, w2) \<Rightarrow> Some (Inl e, w2)
              | Some (Inr u, w2) \<Rightarrow>
                  (let w3 = folder_remove (folder_id folder) w2
                   in Some (Inr (),
                            w3\<lparr>folder_log :=
                                 folder_log w3 @ [''Folder hard deleted: '' @ F]\<rparr>))))"
      using Some by (simp add: Let_def w1_def children_def loop_def)
    note eq = Suc.prems [unfolded u]
    show ?thesis
    proof (cases "length (filter (\<lambda>f. file_folderId f = Some F) (files w)) > 0 \<and> \<not> force")
      case True
      with eq show ?thesis by simp
    next
      case nf: False
      show ?thesis
      proof (cases "length children > 0 \<and> \<not> force")
        case True
        with eq nf have "Some (Inl (FolderNotEmptyException F), w1) = Some (r, w')"
          by (simp only: if_False if_True simp_thms)
        with k1 show ?thesis by auto
      next
        case nc: False
        from eq nf nc
        have eq2: "(case loop of
                None \<Rightarrow> None
              | Some (Inl e, w2) \<Rightarrow> Some (Inl e, w2)
              | Some (Inr u, w2) \<Rightarrow>
                  (let w3 = folder_remove (folder_id folder) w2
                   in Some (Inr (),
                            w3\<lparr>folder_log :=
                                 folder_log w3 @ [''Folder hard deleted: '' @ F]\<rparr>)))
              = Some (r, w')"
          by (simp only: if_False if_True simp_thms)
        show ?thesis
        proof (cases loop)
          case None
          with eq2 show ?thesis by simp
        next
          case (Some p)
          obtain r2 w2 where p: "p = (r2, w2)" by (cases p)
          note k2 = kl [OF Some [unfolded p]]
          show ?thesis
          proof (cases r2)
            case (Inl e)
            with eq2 Some p k2 show ?thesis by auto
          next
            case (Inr x)
            with eq2 Some p
            have "w' = (folder_remove (folder_id folder) w2)
                          \<lparr>folder_log := folder_log (folder_remove (folder_id folder) w2)
                                          @ [''Folder hard deleted: '' @ F]\<rparr>"
              by (auto simp: Let_def)
            with k2 show ?thesis by (simp add: folder_remove_def)
          qed
        qed
      qed
    qed
  qed
qed

text \<open>Without \<open>force\<close>, a folder that holds a file is not deleted.\<close>

lemma folder_hardDelete_unforced:
  assumes "folder_findOne True F w = Some folder"
    and "f \<in> set (files w)" and "file_folderId f = Some F"
  shows "FolderService_hardDelete (Suc depth) F False w = Some (Inl (FolderNotEmptyException F), w)"
proof -
  from assms(2,3) have "f \<in> set (filter (\<lambda>f. file_folderId f = Some F) (files w))" by simp
  then have "length (filter (\<lambda>f. file_folderId f = Some F) (files w)) > 0"
    by (cases "filter (\<lambda>f. file_folderId f = Some F) (files w)") simp_all
  with assms(1) show ?thesis by (simp add: Let_def)
qed

lemma folder_hardDelete_eval_unforced:
  "FolderService_hardDelete (Suc 0) ''F1'' False example_world
     = Some (Inl (FolderNotEmptyException ''F1''), example_world)"
  by (simp add: folder_findOne_def example_world_def docs_folder_def reports_folder_def
      local_row_def s3_row_def)

lemma folder_hardDelete_eval_child:
  "FolderService_hardDelete (Suc 0) ''F2'' True (example_world\<lparr>files := [s3_row]\<rparr>)
     = Some (Inr (), example_world\<lparr>files := [], folders := [docs_folder],
                        folders_closure := [(''F1'', ''F1'')],
                        folder_log := [''Folder hard deleted: F2'']\<rparr>)"
  by (simp add: folder_findOne_def folder_remove_def example_world_def docs_folder_def
      reports_folder_def s3_row_def)

lemma folder_hardDelete_eval_forced:
  "FolderService_hardDelete (Suc (Suc 0)) ''F1'' True example_world
     = Some (Inr (), example_world\<lparr>files := [], folders := [], folders_closure := [],
                        folder_log := [''Folder hard deleted: F2'', ''Folder hard deleted: F1'']\<rparr>)"
proof -
  have a: "folder_findOne True ''F1'' example_world = Some docs_folder"
    by (simp add: folder_findOne_def example_world_def docs_folder_def)
  have b: "filter (\<lambda>f. file_folderId f = Some ''F1'') (files example_world) = [local_row]"
    "filter (\<lambda>f. file_folderId f \<noteq> Some ''F1'') (files example_world) = [s3_row]"
    by (simp_all add: example_world_def local_row_def s3_row_def)
  have c: "filter (\<lambda>f. folder_parentId f = Some ''F1'') (folders example_world)
             = [reports_folder]"
    by (simp add: example_world_def docs_folder_def reports_folder_def)
  have d: "folder_id reports_folder = ''F2''" "folder_id docs_folder = ''F1''"
    by (simp_all add: reports_folder_def docs_folder_def)
  have e: "folder_remove ''F1'' (example_world\<lparr>files := [], folders := [docs_folder],
                        folders_closure := [(''F1'', ''F1'')],
                        folder_log := [''Folder hard deleted: F2'']\<rparr>)
      = example_world\<lparr>files := [], folders := [], folders_closure := [],
                        folder_log := [''Folder hard deleted: F2'']\<rparr>"
    by (simp add: folder_remove_def docs_folder_def)
  show ?thesis
    apply (subst FolderService_hardDelete.simps(2))
    apply (simp add: a b c d e Let_def folder_hardDelete_eval_child
        del: FolderService_hardDelete.simps)
    done
qed

text \<open>
  Claim C3 says a forced \<open>hardDelete\<close> removes, for every contained file, the backend
  object and the row. The code removes the rows only. On the example installation Docs
  holds a file on the local disk and has the child Reports, which holds an object of the
  bucket. Unforced, the call is refused with the not-empty error and nothing changes.
  Forced, it returns: both file rows and both folder rows are gone, Reports before Docs;
  the file \<open>uploads/a.txt\<close> is still on the disk and the object \<open>b.txt\<close> still in the
  bucket, and no row is left that knows of them.
\<close>

theorem forced_hardDelete_keeps_backend_objects:
  "FolderService_hardDelete (Suc 0) ''F1'' False example_world
     = Some (Inl (FolderNotEmptyException ''F1''), example_world)
   \<and> FolderService_hardDelete (Suc (Suc 0)) ''F1'' True example_world
     = Some (Inr (), example_world\<lparr>files := [], folders := [], folders_closure := [],
                        folder_log := [''Folder hard deleted: F2'', ''Folder hard deleted: F1'']\<rparr>)
   \<and> map file_id (files example_world) = [''id1'', ''id2'']
   \<and> fs_files (disk (example_world\<lparr>files := [], folders := [], folders_closure := [],
                        folder_log := [''Folder hard deleted: F2'', ''Folder hard deleted: F1'']\<rparr>))
     = [(''uploads/a.txt'', ''hello'')]
   \<and> s3_objects (object_store (example_world\<lparr>files := [], folders := [], folders_closure := [],
                        folder_log := [''Folder hard deleted: F2'', ''Folder hard deleted: F1'']\<rparr>))
     = [((''media'', ''b.txt''), ''abc'')]"
proof -
  have a: "map file_id (files example_world) = [''id1'', ''id2'']"
    by (simp add: example_world_def local_row_def s3_row_def)
  have b: "fs_files (disk (example_world\<lparr>files := [], folders := [], folders_closure := [],
                        folder_log := [''Folder hard deleted: F2'', ''Folder hard deleted: F1'']\<rparr>))
     = [(''uploads/a.txt'', ''hello'')]"
    by (simp add: example_world_def)
  have c: "s3_objects (object_store (example_world\<lparr>files := [], folders := [], folders_closure := [],
                        folder_log := [''Folder hard deleted: F2'', ''Folder hard deleted: F1'']\<rparr>))
     = [((''media'', ''b.txt''), ''abc'')]"
    by (simp add: example_world_def)
  show ?thesis
    by (intro conjI a b c folder_hardDelete_eval_unforced folder_hardDelete_eval_forced)
qed

end
